theory Spec2Isabelle
  imports Main
begin

section \<open>Data model\<close>

text \<open>
  The service of \<^verbatim>\<open>src/backend/server.py\<close> keeps three MongoDB collections:
  \<^verbatim>\<open>db.users\<close>, \<^verbatim>\<open>db.sessions\<close> and \<^verbatim>\<open>db.posts\<close>. A collection is modelled as the
  list of its documents in insertion order (the order in which an unsorted
  \<^verbatim>\<open>find_one\<close> meets them); the collections have no unique index, so duplicates are
  possible in the model as they are in the store. Documents are records with exactly the
  fields the code writes; the engine's own \<^verbatim>\<open>_id\<close> field is left out, since every query
  of the code projects it away or ignores it.

  Timestamps are UTC instants counted in microseconds (the resolution of Python's
  \<^verbatim>\<open>datetime\<close>); the code stores them with \<^verbatim>\<open>isoformat\<close> and reads them back with
  \<^verbatim>\<open>fromisoformat\<close>, which returns the same instant.
\<close>

type_synonym timestamp = int

text \<open>
  A bcrypt hash carries its salt next to the digest. It is modelled as the pair of both;
  the digest function itself is a parameter \<open>bcrypt salt plaintext\<close> of every operation
  that hashes or verifies.
\<close>

type_synonym hashed = "string \<times> string"

type_synonym digest = "string \<Rightarrow> string \<Rightarrow> string"

record user_doc =
  id_user :: string
  username :: string
  password :: hashed
  is_admin :: bool
  created_at_user :: timestamp

text \<open>The response model \<^verbatim>\<open>User\<close>: a user document without its \<^verbatim>\<open>password\<close>.\<close>

record User =
  pub_id :: string
  pub_username :: string
  pub_is_admin :: bool
  pub_created_at :: timestamp

record session_doc =
  session_id :: string
  user_id :: string
  created_at_session :: timestamp
  expires_at :: timestamp

record post_doc =
  id_post :: string
  author_id :: string
  author_username :: string
  content :: string
  created_at_post :: timestamp

record database =
  users :: "user_doc list"
  sessions :: "session_doc list"
  posts :: "post_doc list"

text \<open>\<^verbatim>\<open>HTTPException(status_code=..., detail=...)\<close>\<close>

datatype http_exception = HTTPException (status_code: nat) (detail: string)

text \<open>The body of a successful login and the cookie set with it.\<close>

record login_body =
  login_id :: string
  login_username :: string
  login_is_admin :: bool

record set_cookie =
  cookie_key :: string
  cookie_val :: string
  httponly :: bool
  max_age :: int
  samesite :: string


section \<open>The store's operations\<close>

text \<open>
  A filter document \<^verbatim>\<open>{"field": v}\<close> is a predicate on documents. \<^verbatim>\<open>find_one\<close> returns
  the first match, \<^verbatim>\<open>delete_one\<close> and \<^verbatim>\<open>update_one\<close> act on the first match only,
  \<^verbatim>\<open>delete_many\<close> on every match, \<^verbatim>\<open>insert_one\<close> appends.
\<close>

definition find_one :: "('a \<Rightarrow> bool) \<Rightarrow> 'a list \<Rightarrow> 'a option" where
  "find_one q xs = List.find q xs"

fun delete_one :: "('a \<Rightarrow> bool) \<Rightarrow> 'a list \<Rightarrow> 'a list" where
  "delete_one q [] = []"
| "delete_one q (x # xs) = (if q x then xs else x # delete_one q xs)"

fun update_one :: "('a \<Rightarrow> bool) \<Rightarrow> ('a \<Rightarrow> 'a) \<Rightarrow> 'a list \<Rightarrow> 'a list" where
  "update_one q f [] = []"
| "update_one q f (x # xs) = (if q x then f x # xs else x # update_one q f xs)"

text \<open>
  \<^verbatim>\<open>result.deleted_count\<close> of \<^verbatim>\<open>delete_one\<close> and \<^verbatim>\<open>result.matched_count\<close> of
  \<^verbatim>\<open>update_one\<close>: 1 when a document matches, 0 otherwise.
\<close>

definition matched_count :: "('a \<Rightarrow> bool) \<Rightarrow> 'a list \<Rightarrow> nat" where
  "matched_count q xs = (case find_one q xs of None \<Rightarrow> 0 | Some x \<Rightarrow> 1)"

definition delete_many :: "('a \<Rightarrow> bool) \<Rightarrow> 'a list \<Rightarrow> 'a list" where
  "delete_many q xs = filter (\<lambda>x. \<not> q x) xs"

definition insert_one :: "'a \<Rightarrow> 'a list \<Rightarrow> 'a list" where
  "insert_one x xs = xs @ [x]"

text \<open>The filter documents the code uses.\<close>

definition by_session_id :: "string \<Rightarrow> session_doc \<Rightarrow> bool" where
  "by_session_id sid s = (session_id s = sid)"

definition by_user_id :: "string \<Rightarrow> session_doc \<Rightarrow> bool" where
  "by_user_id uid s = (user_id s = uid)"

definition by_id :: "string \<Rightarrow> user_doc \<Rightarrow> bool" where
  "by_id uid u = (id_user u = uid)"

definition by_username :: "string \<Rightarrow> user_doc \<Rightarrow> bool" where
  "by_username name u = (username u = name)"

definition by_post_id :: "string \<Rightarrow> post_doc \<Rightarrow> bool" where
  "by_post_id pid p = (id_post p = pid)"

definition by_author_id :: "string \<Rightarrow> post_doc \<Rightarrow> bool" where
  "by_author_id uid p = (author_id p = uid)"

text \<open>The projection \<^verbatim>\<open>{"_id": 0, "password": 0}\<close> of a user document.\<close>

definition project_user :: "user_doc \<Rightarrow> User" where
  "project_user u =
     \<lparr>pub_id = id_user u, pub_username = username u, pub_is_admin = is_admin u,
      pub_created_at = created_at_user u\<rparr>"


section \<open>Helper functions\<close>

text \<open>
  \<^verbatim>\<open>bcrypt.hashpw(password, salt)\<close> on a password it accepts: the salt and the digest.
\<close>

definition hashpw :: "digest \<Rightarrow> string \<Rightarrow> string \<Rightarrow> hashed" where
  "hashpw bcrypt pw salt = (salt, bcrypt salt pw)"

text \<open>
  \<^verbatim>\<open>hash_password\<close> and \<^verbatim>\<open>verify_password\<close>. Strings are the UTF-8 bytes that
  \<^verbatim>\<open>password.encode('utf-8')\<close> hands to the library. bcrypt (5.0 and later) refuses a
  password of more than 72 bytes: \<^verbatim>\<open>hashpw\<close> and \<^verbatim>\<open>checkpw\<close> raise \<^verbatim>\<open>ValueError\<close>,
  which is the result \<open>None\<close> here. The salt of \<^verbatim>\<open>hash_password\<close> is the fresh
  \<^verbatim>\<open>bcrypt.gensalt()\<close>, an argument; \<^verbatim>\<open>checkpw\<close> hashes the password again under the
  salt that \<^verbatim>\<open>hashed\<close> carries and compares. No caller catches the exception: a
  request in which it is raised ends in the framework's response 500.
\<close>

definition hash_password :: "digest \<Rightarrow> string \<Rightarrow> string \<Rightarrow> hashed option" where
  "hash_password bcrypt pw salt =
     (if 72 < length pw then None else Some (hashpw bcrypt pw salt))"

definition verify_password :: "digest \<Rightarrow> string \<Rightarrow> hashed \<Rightarrow> bool option" where
  "verify_password bcrypt pw h =
     (if 72 < length pw then None else Some (bcrypt (fst h) pw = snd h))"

definition SESSION_EXPIRY_HOURS :: int where
  "SESSION_EXPIRY_HOURS = 24"

definition timedelta_hours :: "int \<Rightarrow> timestamp" where
  "timedelta_hours h = h * 3600000000"

text \<open>
  \<^verbatim>\<open>get_user_from_session\<close>. The cookie is \<open>None\<close> when the request carries none;
  \<^verbatim>\<open>not session_id\<close> also holds of the empty string. The result is the identity (or
  \<open>None\<close>) together with the store, from which an expired session has been deleted.
\<close>

definition get_user_from_session ::
  "database \<Rightarrow> string option \<Rightarrow> timestamp \<Rightarrow> User option \<times> database" where
  "get_user_from_session db cookie now =
     (case cookie of
        None \<Rightarrow> (None, db)
      | Some sid \<Rightarrow>
          if sid = [] then (None, db)
          else (case find_one (by_session_id sid) (sessions db) of
                  None \<Rightarrow> (None, db)
                | Some session \<Rightarrow>
                    if expires_at session < now
                    then (None, db\<lparr>sessions := delete_one (by_session_id sid) (sessions db)\<rparr>)
                    else (map_option project_user
                            (find_one (by_id (user_id session)) (users db)), db)))"

text \<open>The test \<^verbatim>\<open>not user or not user.get('is_admin')\<close> of the admin-only endpoints.\<close>

definition not_admin :: "User option \<Rightarrow> bool" where
  "not_admin user = (case user of None \<Rightarrow> True | Some u \<Rightarrow> \<not> pub_is_admin u)"

text \<open>
  \<^verbatim>\<open>create_default_admin\<close>, run by the startup event. Were the default secret
  refused by the hasher, the startup would fail before the insert.
\<close>

definition create_default_admin ::
  "digest \<Rightarrow> database \<Rightarrow> string \<Rightarrow> string \<Rightarrow> timestamp \<Rightarrow> database" where
  "create_default_admin bcrypt db uuid salt now =
     (case find_one (by_username ''admin'') (users db) of
        Some existing_admin \<Rightarrow> db
      | None \<Rightarrow>
          (case hash_password bcrypt ''admin'' salt of
             None \<Rightarrow> db
           | Some hashed \<Rightarrow>
               db\<lparr>users := insert_one
                     \<lparr>id_user = uuid, username = ''admin'', password = hashed,
                      is_admin = True, created_at_user = now\<rparr> (users db)\<rparr>))"


section \<open>Auth endpoints\<close>

text \<open>
  Every endpoint takes the store and returns its response (\<open>Inl\<close> the raised
  \<^verbatim>\<open>HTTPException\<close>) together with the store it leaves. What the code reads from its
  environment is an argument: \<open>now\<close> for a reading of the clock (\<open>now2\<close> for a later
  reading in the same request), \<open>uuid\<close> for \<^verbatim>\<open>str(uuid.uuid4())\<close>, \<open>salt\<close> for
  \<^verbatim>\<open>bcrypt.gensalt()\<close>.
\<close>

text \<open>
  \<^verbatim>\<open>login\<close>. The test \<^verbatim>\<open>not user or not verify_password(...)\<close> verifies the
  password only when a user was found.
\<close>

definition login ::
  "digest \<Rightarrow> database \<Rightarrow> string \<Rightarrow> string \<Rightarrow> timestamp \<Rightarrow> timestamp \<Rightarrow> string
     \<Rightarrow> (http_exception + login_body \<times> set_cookie) \<times> database" where
  "login bcrypt db uname pw now now2 uuid =
     (case find_one (by_username uname) (users db) of
        None \<Rightarrow> (Inl (HTTPException 401 ''Credenziali non valide''), db)
      | Some user \<Rightarrow>
          (case verify_password bcrypt pw (password user) of
             None \<Rightarrow> (Inl (HTTPException 500 ''Internal Server Error''), db)
           | Some verified \<Rightarrow>
               if \<not> verified
               then (Inl (HTTPException 401 ''Credenziali non valide''), db)
               else
                 let session = \<lparr>session_id = uuid, user_id = id_user user,
                                created_at_session = now2,
                                expires_at = now + timedelta_hours SESSION_EXPIRY_HOURS\<rparr>
                 in (Inr (\<lparr>login_id = id_user user, login_username = username user,
                           login_is_admin = is_admin user\<rparr>,
                          \<lparr>cookie_key = ''session_id'', cookie_val = uuid, httponly = True,
                           max_age = SESSION_EXPIRY_HOURS * 3600, samesite = ''lax''\<rparr>),
                     db\<lparr>sessions := insert_one session (sessions db)\<rparr>)))"

text \<open>
  \<^verbatim>\<open>logout\<close> answers with its message and the name of the cookie it tells the client
  to delete.
\<close>

definition logout :: "database \<Rightarrow> string option \<Rightarrow> (string \<times> string) \<times> database" where
  "logout db cookie =
     ((''Logout effettuato con successo'', ''session_id''),
      (case cookie of
         None \<Rightarrow> db
       | Some sid \<Rightarrow>
           if sid = [] then db
           else db\<lparr>sessions := delete_one (by_session_id sid) (sessions db)\<rparr>))"

definition get_current_user ::
  "database \<Rightarrow> string option \<Rightarrow> timestamp \<Rightarrow> (http_exception + User) \<times> database" where
  "get_current_user db cookie now =
     (case get_user_from_session db cookie now of
        (None, db1) \<Rightarrow> (Inl (HTTPException 401 ''Non autenticato''), db1)
      | (Some user, db1) \<Rightarrow> (Inr user, db1))"


section \<open>User management endpoints\<close>

definition get_users ::
  "database \<Rightarrow> string option \<Rightarrow> timestamp \<Rightarrow> (http_exception + User list) \<times> database" where
  "get_users db cookie now =
     (case get_user_from_session db cookie now of
        (user, db1) \<Rightarrow>
          if not_admin user then (Inl (HTTPException 403 ''Accesso negato''), db1)
          else (Inr (take 1000 (map project_user (users db1))), db1))"

definition create_user ::
  "digest \<Rightarrow> database \<Rightarrow> string \<Rightarrow> string \<Rightarrow> string option \<Rightarrow> timestamp \<Rightarrow> timestamp
     \<Rightarrow> string \<Rightarrow> string \<Rightarrow> (http_exception + User) \<times> database" where
  "create_user bcrypt db uname pw cookie now now2 uuid salt =
     (case get_user_from_session db cookie now of
        (user, db1) \<Rightarrow>
          if not_admin user then (Inl (HTTPException 403 ''Accesso negato''), db1)
          else (case find_one (by_username uname) (users db1) of
                  Some existing \<Rightarrow>
                    (Inl (HTTPException 400
                       (''Nome utente gi'' @ [CHR 0xC3, CHR 0xA0] @ '' esistente'')), db1)
                | None \<Rightarrow>
                    (case hash_password bcrypt pw salt of
                       None \<Rightarrow> (Inl (HTTPException 500 ''Internal Server Error''), db1)
                     | Some hashed \<Rightarrow>
                         let new_user = \<lparr>id_user = uuid, username = uname,
                                         password = hashed,
                                         is_admin = False, created_at_user = now2\<rparr>
                         in (Inr (project_user new_user),
                             db1\<lparr>users := insert_one new_user (users db1)\<rparr>))))"

definition delete_user ::
  "database \<Rightarrow> string \<Rightarrow> string option \<Rightarrow> timestamp \<Rightarrow> (http_exception + string) \<times> database" where
  "delete_user db uid cookie now =
     (case get_user_from_session db cookie now of
        (user, db1) \<Rightarrow>
          if not_admin user then (Inl (HTTPException 403 ''Accesso negato''), db1)
          else if (case find_one (by_id uid) (users db1) of
                     None \<Rightarrow> False
                   | Some target_user \<Rightarrow> username target_user = ''admin'')
          then (Inl (HTTPException 400 ''Impossibile eliminare l'utente admin''), db1)
          else if matched_count (by_id uid) (users db1) = 0
          then (Inl (HTTPException 404 ''Utente non trovato''), db1)
          else (Inr ''Utente eliminato con successo'',
                db1\<lparr>users := delete_one (by_id uid) (users db1),
                    sessions := delete_many (by_user_id uid) (sessions db1),
                    posts := delete_many (by_author_id uid) (posts db1)\<rparr>))"

text \<open>
  \<^verbatim>\<open>update_user_password\<close> hashes the new password before it asks the store to
  update, so a refused password ends the request before the lookup.
\<close>

definition update_user_password ::
  "digest \<Rightarrow> database \<Rightarrow> string \<Rightarrow> string \<Rightarrow> string option \<Rightarrow> timestamp \<Rightarrow> string
     \<Rightarrow> (http_exception + string) \<times> database" where
  "update_user_password bcrypt db uid new_password cookie now salt =
     (case get_user_from_session db cookie now of
        (user, db1) \<Rightarrow>
          if not_admin user then (Inl (HTTPException 403 ''Accesso negato''), db1)
          else (case hash_password bcrypt new_password salt of
                  None \<Rightarrow> (Inl (HTTPException 500 ''Internal Server Error''), db1)
                | Some hashed \<Rightarrow>
                    if matched_count (by_id uid) (users db1) = 0
                    then (Inl (HTTPException 404 ''Utente non trovato''), db1)
                    else (Inr ''Password aggiornata con successo'',
                          db1\<lparr>users := update_one (by_id uid)
                                         (\<lambda>u. u\<lparr>password := hashed\<rparr>) (users db1),
                              sessions := delete_many (by_user_id uid) (sessions db1)\<rparr>)))"


section \<open>Post endpoints\<close>

text \<open>
  The listings \<^verbatim>\<open>find(...).sort("created_at", -1).to_list(1000)\<close> leave the store as
  session resolution left it. The engine's sort is the parameter \<open>sort_desc\<close>; its
  regular-expression search is the parameter \<open>regex\<close>, which gives the matcher of a
  pattern, or \<open>None\<close> for a pattern the engine refuses (the request then ends in
  the framework's response 500).
\<close>

definition get_posts ::
  "(post_doc list \<Rightarrow> post_doc list) \<Rightarrow> database \<Rightarrow> string option \<Rightarrow> timestamp
     \<Rightarrow> (http_exception + post_doc list) \<times> database" where
  "get_posts sort_desc db cookie now =
     (case get_user_from_session db cookie now of
        (None, db1) \<Rightarrow> (Inl (HTTPException 401 ''Non autenticato''), db1)
      | (Some user, db1) \<Rightarrow> (Inr (take 1000 (sort_desc (posts db1))), db1))"

definition create_post ::
  "database \<Rightarrow> string \<Rightarrow> string option \<Rightarrow> timestamp \<Rightarrow> timestamp \<Rightarrow> string
     \<Rightarrow> (http_exception + post_doc) \<times> database" where
  "create_post db text cookie now now2 uuid =
     (case get_user_from_session db cookie now of
        (None, db1) \<Rightarrow> (Inl (HTTPException 401 ''Non autenticato''), db1)
      | (Some user, db1) \<Rightarrow>
          let new_post = \<lparr>id_post = uuid, author_id = pub_id user,
                          author_username = pub_username user, content = text,
                          created_at_post = now2\<rparr>
          in (Inr new_post, db1\<lparr>posts := insert_one new_post (posts db1)\<rparr>))"

definition delete_post ::
  "database \<Rightarrow> string \<Rightarrow> string option \<Rightarrow> timestamp \<Rightarrow> (http_exception + string) \<times> database" where
  "delete_post db pid cookie now =
     (case get_user_from_session db cookie now of
        (None, db1) \<Rightarrow> (Inl (HTTPException 401 ''Non autenticato''), db1)
      | (Some user, db1) \<Rightarrow>
          (case find_one (by_post_id pid) (posts db1) of
             None \<Rightarrow> (Inl (HTTPException 404 ''Post non trovato''), db1)
           | Some post \<Rightarrow>
               if author_id post \<noteq> pub_id user \<and> \<not> pub_is_admin user
               then (Inl (HTTPException 403 ''Accesso negato''), db1)
               else (Inr ''Post eliminato con successo'',
                     db1\<lparr>posts := delete_one (by_post_id pid) (posts db1)\<rparr>)))"

definition search_posts ::
  "(post_doc list \<Rightarrow> post_doc list) \<Rightarrow> (string \<Rightarrow> (string \<Rightarrow> bool) option) \<Rightarrow> database
     \<Rightarrow> string \<Rightarrow> string option \<Rightarrow> timestamp \<Rightarrow> (http_exception + post_doc list) \<times> database" where
  "search_posts sort_desc regex db q cookie now =
     (case get_user_from_session db cookie now of
        (None, db1) \<Rightarrow> (Inl (HTTPException 401 ''Non autenticato''), db1)
      | (Some user, db1) \<Rightarrow>
          (case regex q of
             None \<Rightarrow> (Inl (HTTPException 500 ''Internal Server Error''), db1)
           | Some matches \<Rightarrow>
               (Inr (take 1000 (sort_desc (filter (\<lambda>p. matches (content p)) (posts db1)))),
                db1)))"

definition get_user_posts ::
  "(post_doc list \<Rightarrow> post_doc list) \<Rightarrow> database \<Rightarrow> string \<Rightarrow> string option \<Rightarrow> timestamp
     \<Rightarrow> (http_exception + post_doc list) \<times> database" where
  "get_user_posts sort_desc db uid cookie now =
     (case get_user_from_session db cookie now of
        (None, db1) \<Rightarrow> (Inl (HTTPException 401 ''Non autenticato''), db1)
      | (Some user, db1) \<Rightarrow>
          (Inr (take 1000 (sort_desc (filter (by_author_id uid) (posts db1)))), db1))"


section \<open>The service as a transition system\<close>

text \<open>
  The stores the service can be in: the empty store, and every store that a startup or a
  request to one of the twelve endpoints leaves behind, whatever the request carries and
  whatever the clock, the generator of identifiers and the salt generator give.
\<close>

inductive reachable :: "digest \<Rightarrow> database \<Rightarrow> bool" for bcrypt :: digest where
  empty_store: "reachable bcrypt \<lparr>users = [], sessions = [], posts = []\<rparr>"
| startup_event:
    "reachable bcrypt db \<Longrightarrow> reachable bcrypt (create_default_admin bcrypt db uuid salt now)"
| req_login:
    "reachable bcrypt db \<Longrightarrow> reachable bcrypt (snd (login bcrypt db uname pw now now2 uuid))"
| req_logout:
    "reachable bcrypt db \<Longrightarrow> reachable bcrypt (snd (logout db cookie))"
| req_get_current_user:
    "reachable bcrypt db \<Longrightarrow> reachable bcrypt (snd (get_current_user db cookie now))"
| req_get_users:
    "reachable bcrypt db \<Longrightarrow> reachable bcrypt (snd (get_users db cookie now))"
| req_create_user:
    "reachable bcrypt db \<Longrightarrow>
     reachable bcrypt (snd (create_user bcrypt db uname pw cookie now now2 uuid salt))"
| req_delete_user:
    "reachable bcrypt db \<Longrightarrow> reachable bcrypt (snd (delete_user db uid cookie now))"
| req_update_user_password:
    "reachable bcrypt db \<Longrightarrow>
     reachable bcrypt (snd (update_user_password bcrypt db uid new_password cookie now salt))"
| req_get_posts:
    "reachable bcrypt db \<Longrightarrow> reachable bcrypt (snd (get_posts sort_desc db cookie now))"
| req_create_post:
    "reachable bcrypt db \<Longrightarrow> reachable bcrypt (snd (create_post db text cookie now now2 uuid))"
| req_delete_post:
    "reachable bcrypt db \<Longrightarrow> reachable bcrypt (snd (delete_post db pid cookie now))"
| req_search_posts:
    "reachable bcrypt db \<Longrightarrow>
     reachable bcrypt (snd (search_posts sort_desc regex db q cookie now))"
| req_get_user_posts:
    "reachable bcrypt db \<Longrightarrow>
     reachable bcrypt (snd (get_user_posts sort_desc db uid cookie now))"

text \<open>
  Startups in a row, each with its own identifier, salt and clock reading.
\<close>

fun startups :: "digest \<Rightarrow> database \<Rightarrow> (string \<times> string \<times> timestamp) list \<Rightarrow> database" where
  "startups bcrypt db [] = db"
| "startups bcrypt db ((uuid, salt, now) # envs) =
     startups bcrypt (create_default_admin bcrypt db uuid salt now) envs"


section \<open>A worked store\<close>

text \<open>
  A small store for the worked examples: the seeded administrator and a plain user, one
  session each, and one post. The digest of the examples is a stand-in that keeps salt
  and plaintext apart.
\<close>

definition toy_digest :: digest where
  "toy_digest salt pw = salt @ ''$'' @ pw"

definition admin_doc :: user_doc where
  "admin_doc = \<lparr>id_user = ''u0'', username = ''admin'',
                password = hashpw toy_digest ''admin'' ''s0'',
                is_admin = True, created_at_user = 0\<rparr>"

definition alice_doc :: user_doc where
  "alice_doc = \<lparr>id_user = ''u1'', username = ''alice'',
                password = hashpw toy_digest ''pw123'' ''s1'',
                is_admin = False, created_at_user = 10\<rparr>"

definition admin_session :: session_doc where
  "admin_session = \<lparr>session_id = ''t0'', user_id = ''u0'', created_at_session = 20,
                    expires_at = 1000\<rparr>"

definition alice_session :: session_doc where
  "alice_session = \<lparr>session_id = ''t1'', user_id = ''u1'', created_at_session = 30,
                    expires_at = 100\<rparr>"

definition alice_post :: post_doc where
  "alice_post = \<lparr>id_post = ''p1'', author_id = ''u1'', author_username = ''alice'',
                 content = ''ciao'', created_at_post = 40\<rparr>"

definition example_db :: database where
  "example_db = \<lparr>users = [admin_doc, alice_doc], sessions = [admin_session, alice_session],
                 posts = [alice_post]\<rparr>"

lemmas example_defs =
  example_db_def admin_doc_def alice_doc_def admin_session_def alice_session_def
  alice_post_def toy_digest_def

lemmas query_defs =
  find_one_def matched_count_def delete_many_def insert_one_def by_session_id_def
  by_user_id_def by_id_def by_username_def by_post_id_def by_author_id_def
  project_user_def hashpw_def hash_password_def verify_password_def not_admin_def


section \<open>Facts about the store's operations\<close>

lemma find_one_SomeD: "find_one q xs = Some x \<Longrightarrow> x \<in> set xs \<and> q x"
  by (auto simp: find_one_def find_Some_iff)

lemma find_one_None_iff: "find_one q xs = None \<longleftrightarrow> (\<forall>x\<in>set xs. \<not> q x)"
  by (auto simp: find_one_def find_None_iff)

lemma delete_one_remove1: "find_one q xs = Some x \<Longrightarrow> delete_one q xs = remove1 x xs"
proof (induction xs)
  case Nil
  then show ?case by (simp add: find_one_def)
next
  case (Cons y ys)
  show ?case
  proof (cases "q y")
    case True
    with Cons.prems show ?thesis by (simp add: find_one_def)
  next
    case False
    with Cons.prems have rest: "find_one q ys = Some x" by (simp add: find_one_def)
    then have "q x" by (simp add: find_one_SomeD)
    with False have "x \<noteq> y" by auto
    with False Cons.IH [OF rest] show ?thesis by simp
  qed
qed

lemma delete_one_absent: "find_one q xs = None \<Longrightarrow> delete_one q xs = xs"
  by (induction xs) (auto simp: find_one_def split: if_splits)

lemma set_delete_one: "set (delete_one q xs) \<subseteq> set xs"
  by (induction xs) auto

lemma set_delete_many: "set (delete_many q xs) = {x \<in> set xs. \<not> q x}"
  by (auto simp: delete_many_def)


section \<open>Session resolution and expiry\<close>

text \<open>
  Claim C1, as the code has it. For a non-empty token whose session is in the store,
  \<^verbatim>\<open>get_user_from_session\<close> compares strictly: when the expiry lies before the current
  time it deletes the session that the lookup found and returns \<open>None\<close>; otherwise (the
  expiry instant itself included) it leaves the store as it is and returns the
  password-free projection of the owning user's document, \<open>None\<close> when no user has the
  session's user identifier.
\<close>

theorem get_user_from_session_expiry:
  assumes "sid \<noteq> []"
    and "find_one (by_session_id sid) (sessions db) = Some session"
  shows "get_user_from_session db (Some sid) now =
     (if expires_at session < now
      then (None, db\<lparr>sessions := remove1 session (sessions db)\<rparr>)
      else (map_option project_user (find_one (by_id (user_id session)) (users db)), db))"
  using assms by (simp add: get_user_from_session_def delete_one_remove1)

theorem get_user_from_session_expiry_witness:
  "find_one (by_session_id ''t1'') (sessions example_db) = Some alice_session
   \<and> get_user_from_session example_db (Some ''t1'') 101
       = (None, example_db\<lparr>sessions := [admin_session]\<rparr>)"
  using get_user_from_session_expiry [of "''t1''" example_db alice_session 101]
  by (simp add: example_defs query_defs)

text \<open>
  The claim as the specification words it (\<open>expiry \<le> now\<close> deletes) fails at the expiry
  instant: the session of the worked store expires at 100, and resolving its token at
  time 100 returns the user and deletes nothing.
\<close>

theorem get_user_from_session_at_expiry_counterexample:
  "find_one (by_session_id ''t1'') (sessions example_db) = Some alice_session
   \<and> expires_at alice_session \<le> 100
   \<and> get_user_from_session example_db (Some ''t1'') 100
       = (Some (project_user alice_doc), example_db)"
  by (simp add: get_user_from_session_def example_defs query_defs)


section \<open>Facts about session resolution\<close>

text \<open>
  Resolution touches the session collection only, deletes at most the expired session
  it met, and leaves the store alone whenever it returns an identity.
\<close>

lemma resolve_users: "users (snd (get_user_from_session db cookie now)) = users db"
  by (simp add: get_user_from_session_def split: option.splits)

lemma resolve_posts: "posts (snd (get_user_from_session db cookie now)) = posts db"
  by (simp add: get_user_from_session_def split: option.splits)

lemma resolve_granted:
  "fst (get_user_from_session db cookie now) = Some u \<Longrightarrow>
   snd (get_user_from_session db cookie now) = db"
  by (simp add: get_user_from_session_def split: option.splits if_splits)

lemma resolve_admin_granted:
  "\<not> not_admin (fst (get_user_from_session db cookie now)) \<Longrightarrow>
   snd (get_user_from_session db cookie now) = db"
  by (cases "fst (get_user_from_session db cookie now)")
     (simp_all add: not_admin_def resolve_granted)

lemma resolve_sessions_subset:
  "set (sessions (snd (get_user_from_session db cookie now))) \<subseteq> set (sessions db)"
  by (auto simp: get_user_from_session_def split: option.splits
           dest: subsetD [OF set_delete_one])

lemma resolve_no_session:
  "\<forall>s\<in>set (sessions db). session_id s \<noteq> t \<Longrightarrow>
   fst (get_user_from_session db (Some t) now) = None"
proof -
  assume "\<forall>s\<in>set (sessions db). session_id s \<noteq> t"
  then have "find_one (by_session_id t) (sessions db) = None"
    by (simp add: find_one_None_iff by_session_id_def)
  then show ?thesis by (simp add: get_user_from_session_def)
qed


section \<open>Changing a password\<close>

lemma update_one_found:
  "find_one q xs = Some x \<Longrightarrow> q (f x) \<Longrightarrow> find_one q (update_one q f xs) = Some (f x)"
  by (induction xs) (auto simp: find_one_def split: if_splits)

lemma update_user_password_success:
  assumes "update_user_password bcrypt db uid new_password cookie now salt = (Inr msg, db')"
  shows "db' = db\<lparr>users := update_one (by_id uid)
                    (\<lambda>u. u\<lparr>password := hashpw bcrypt new_password salt\<rparr>) (users db),
                  sessions := delete_many (by_user_id uid) (sessions db)\<rparr>"
    and "find_one (by_id uid) (users db) \<noteq> None"
  using assms resolve_admin_granted [of db cookie now]
  by (auto simp: update_user_password_def matched_count_def hash_password_def case_prod_beta
           split: if_splits option.splits)

text \<open>
  Claim C2. When \<^verbatim>\<open>update_user_password\<close> succeeds (the caller is an administrator
  and a user has the identifier), the user document found under the identifier now
  carries the hash of the new plaintext; the session collection is the old one without
  the sessions of that user, so none of them is left; and a token that was stored only
  for that user resolves to \<open>None\<close> afterwards, at any time.
\<close>

theorem update_user_password_revokes_sessions:
  assumes "update_user_password bcrypt db uid new_password cookie now salt = (Inr msg, db')"
  shows "(\<exists>u. find_one (by_id uid) (users db) = Some u
            \<and> find_one (by_id uid) (users db')
                = Some (u\<lparr>password := hashpw bcrypt new_password salt\<rparr>))
       \<and> sessions db' = filter (\<lambda>s. user_id s \<noteq> uid) (sessions db)
       \<and> (\<forall>s\<in>set (sessions db'). user_id s \<noteq> uid)
       \<and> ((\<forall>s\<in>set (sessions db). session_id s = t \<longrightarrow> user_id s = uid)
            \<longrightarrow> fst (get_user_from_session db' (Some t) now') = None)"
proof -
  note run = update_user_password_success [OF assms]
  from run(2) obtain u where u: "find_one (by_id uid) (users db) = Some u" by auto
  then have "by_id uid (u\<lparr>password := hashpw bcrypt new_password salt\<rparr>)"
    using find_one_SomeD [OF u] by (simp add: by_id_def)
  with u have found: "find_one (by_id uid) (users db')
      = Some (u\<lparr>password := hashpw bcrypt new_password salt\<rparr>)"
    by (simp add: run(1) update_one_found)
  have kept: "sessions db' = filter (\<lambda>s. user_id s \<noteq> uid) (sessions db)"
    by (simp add: run(1) delete_many_def by_user_id_def)
  then have none: "\<forall>s\<in>set (sessions db'). user_id s \<noteq> uid" by simp
  have "fst (get_user_from_session db' (Some t) now') = None"
    if "\<forall>s\<in>set (sessions db). session_id s = t \<longrightarrow> user_id s = uid"
  proof (rule resolve_no_session)
    show "\<forall>s\<in>set (sessions db'). session_id s \<noteq> t"
      using that kept by auto
  qed
  with u found kept none show ?thesis by blast
qed

theorem update_user_password_revokes_sessions_witness:
  "update_user_password toy_digest example_db ''u1'' ''newpw'' (Some ''t0'') 50 ''s2''
     = (Inr ''Password aggiornata con successo'',
        \<lparr>users = [admin_doc, alice_doc\<lparr>password := (''s2'', ''s2$newpw'')\<rparr>],
         sessions = [admin_session], posts = [alice_post]\<rparr>)
   \<and> fst (get_user_from_session
        \<lparr>users = [admin_doc, alice_doc\<lparr>password := (''s2'', ''s2$newpw'')\<rparr>],
         sessions = [admin_session], posts = [alice_post]\<rparr> (Some ''t1'') 60) = None"
proof -
  have run: "update_user_password toy_digest example_db ''u1'' ''newpw'' (Some ''t0'') 50 ''s2''
     = (Inr ''Password aggiornata con successo'',
        \<lparr>users = [admin_doc, alice_doc\<lparr>password := (''s2'', ''s2$newpw'')\<rparr>],
         sessions = [admin_session], posts = [alice_post]\<rparr>)"
    by (simp add: update_user_password_def get_user_from_session_def example_defs query_defs)
  have own: "\<forall>s\<in>set (sessions example_db). session_id s = ''t1'' \<longrightarrow> user_id s = ''u1''"
    by (simp add: example_defs)
  from update_user_password_revokes_sessions [OF run, of "''t1''" 60] own run
  show ?thesis by blast
qed


section \<open>The administrator gate\<close>

text \<open>
  Claim C3, as the code has it. The four administrator endpoints test
  \<^verbatim>\<open>not user or not user.get('is_admin')\<close> in one condition: a caller without an
  identity and a caller whose identity is not an administrator get the same answer,
  status 403 with the detail \<^verbatim>\<open>Accesso negato\<close>, and the store stays as resolution
  left it.
\<close>

theorem admin_gate_denies:
  assumes "fst (get_user_from_session db cookie now) = None
           \<or> (\<exists>u. fst (get_user_from_session db cookie now) = Some u \<and> \<not> pub_is_admin u)"
  shows "get_users db cookie now
           = (Inl (HTTPException 403 ''Accesso negato''),
              snd (get_user_from_session db cookie now))
       \<and> create_user bcrypt db uname pw cookie now now2 uuid salt
           = (Inl (HTTPException 403 ''Accesso negato''),
              snd (get_user_from_session db cookie now))
       \<and> delete_user db uid cookie now
           = (Inl (HTTPException 403 ''Accesso negato''),
              snd (get_user_from_session db cookie now))
       \<and> update_user_password bcrypt db uid new_password cookie now salt
           = (Inl (HTTPException 403 ''Accesso negato''),
              snd (get_user_from_session db cookie now))"
proof -
  from assms have "not_admin (fst (get_user_from_session db cookie now))"
    by (auto simp: not_admin_def)
  then show ?thesis
    by (simp add: get_users_def create_user_def delete_user_def update_user_password_def
                  case_prod_beta)
qed

theorem admin_gate_denies_witness:
  "fst (get_user_from_session example_db None 50) = None
   \<and> get_users example_db None 50 = (Inl (HTTPException 403 ''Accesso negato''), example_db)
   \<and> fst (get_user_from_session example_db (Some ''t1'') 50) = Some (project_user alice_doc)
   \<and> \<not> pub_is_admin (project_user alice_doc)
   \<and> get_users example_db (Some ''t1'') 50
       = (Inl (HTTPException 403 ''Accesso negato''), example_db)"
proof -
  have anon: "fst (get_user_from_session example_db None 50) = None"
    by (simp add: get_user_from_session_def)
  have alice: "fst (get_user_from_session example_db (Some ''t1'') 50)
                 = Some (project_user alice_doc)"
    by (simp add: get_user_from_session_def example_defs query_defs)
  have plain: "\<not> pub_is_admin (project_user alice_doc)"
    by (simp add: example_defs query_defs)
  have same1: "snd (get_user_from_session example_db None 50) = example_db"
    by (simp add: get_user_from_session_def)
  have same2: "snd (get_user_from_session example_db (Some ''t1'') 50) = example_db"
    using alice by (rule resolve_granted)
  from admin_gate_denies [of example_db None 50] anon same1
  have r1: "get_users example_db None 50
              = (Inl (HTTPException 403 ''Accesso negato''), example_db)"
    by simp
  from admin_gate_denies [of example_db "Some ''t1''" 50] alice plain same2
  have r2: "get_users example_db (Some ''t1'') 50
              = (Inl (HTTPException 403 ''Accesso negato''), example_db)"
    by simp
  from anon alice plain r1 r2 show ?thesis by simp
qed

text \<open>
  The claim as the specification words it (no identity is answered with 401) fails:
  a request for the list of users without a cookie is answered with 403.
\<close>

theorem admin_gate_unauthenticated_counterexample:
  "fst (get_user_from_session example_db None 50) = None
   \<and> get_users example_db None 50 = (Inl (HTTPException 403 ''Accesso negato''), example_db)
   \<and> status_code (HTTPException 403 ''Accesso negato'') \<noteq> 401"
  by (simp add: get_users_def get_user_from_session_def not_admin_def)


section \<open>The protected administrator account\<close>

text \<open>
  Claim C4, as the code has it. A request to delete the user whose name is
  \<^verbatim>\<open>admin\<close> is refused for every caller and deletes no user and no post: a caller who
  is not an administrator is stopped by the gate with 403, an administrator by the
  protection of the account with status 400.
\<close>

theorem delete_user_admin_protected:
  assumes "find_one (by_id uid) (users db) = Some target"
    and "username target = ''admin''"
  shows "delete_user db uid cookie now
           = (Inl (if not_admin (fst (get_user_from_session db cookie now))
                   then HTTPException 403 ''Accesso negato''
                   else HTTPException 400 ''Impossibile eliminare l'utente admin''),
              snd (get_user_from_session db cookie now))
       \<and> users (snd (delete_user db uid cookie now)) = users db
       \<and> posts (snd (delete_user db uid cookie now)) = posts db"
proof -
  have "find_one (by_id uid) (users (snd (get_user_from_session db cookie now))) = Some target"
    using assms(1) by (simp add: resolve_users)
  with assms(2) have "delete_user db uid cookie now
           = (Inl (if not_admin (fst (get_user_from_session db cookie now))
                   then HTTPException 403 ''Accesso negato''
                   else HTTPException 400 ''Impossibile eliminare l'utente admin''),
              snd (get_user_from_session db cookie now))"
    by (simp add: delete_user_def case_prod_beta)
  then show ?thesis by (simp add: resolve_users resolve_posts)
qed

theorem delete_user_admin_protected_witness:
  "find_one (by_id ''u0'') (users example_db) = Some admin_doc
   \<and> username admin_doc = ''admin''
   \<and> delete_user example_db ''u0'' (Some ''t1'') 50
       = (Inl (HTTPException 403 ''Accesso negato''), example_db)
   \<and> users (snd (delete_user example_db ''u0'' (Some ''t1'') 50)) = users example_db"
  using delete_user_admin_protected [of "''u0''" example_db admin_doc "Some ''t1''" 50]
  by (simp add: get_user_from_session_def example_defs query_defs)

text \<open>
  The claim as the specification words it (the refusal is 403 for every caller) fails
  for an administrator: the answer is 400.
\<close>

theorem delete_user_admin_by_admin_counterexample:
  "find_one (by_id ''u0'') (users example_db) = Some admin_doc
   \<and> username admin_doc = ''admin''
   \<and> delete_user example_db ''u0'' (Some ''t0'') 50
       = (Inl (HTTPException 400 ''Impossibile eliminare l'utente admin''), example_db)
   \<and> status_code (HTTPException 400 ''Impossibile eliminare l'utente admin'') \<noteq> 403"
  by (simp add: delete_user_def get_user_from_session_def example_defs query_defs)


section \<open>Login\<close>

text \<open>
  What \<^verbatim>\<open>login\<close> answers. When no user has the name: 401 with the detail
  \<^verbatim>\<open>Credenziali non valide\<close>, whatever the password. When a user has the name: 500 for
  a password of more than 72 bytes, which the hasher refuses; the same 401 for a shorter
  password that does not verify; otherwise success. A password that was hashed into the
  stored hash (under whatever salt) verifies: login answers with the identifier, name
  and administrator flag of the user, sets the session cookie and appends a session
  that expires 24 hours after the clock reading. The store is untouched by every
  failure.
\<close>

lemma login_outcomes:
  "(find_one (by_username uname) (users db) = None \<longrightarrow>
      login bcrypt db uname pw now now2 uuid
        = (Inl (HTTPException 401 ''Credenziali non valide''), db))
   \<and> (\<forall>user. find_one (by_username uname) (users db) = Some user
              \<and> 72 < length pw \<longrightarrow>
      login bcrypt db uname pw now now2 uuid
        = (Inl (HTTPException 500 ''Internal Server Error''), db))
   \<and> (\<forall>user. find_one (by_username uname) (users db) = Some user
              \<and> verify_password bcrypt pw (password user) = Some False \<longrightarrow>
      login bcrypt db uname pw now now2 uuid
        = (Inl (HTTPException 401 ''Credenziali non valide''), db))
   \<and> (\<forall>e db'. login bcrypt db uname pw now now2 uuid = (Inl e, db') \<longrightarrow> db' = db)
   \<and> (\<forall>user salt. find_one (by_username uname) (users db) = Some user
              \<and> hash_password bcrypt pw salt = Some (password user) \<longrightarrow>
      login bcrypt db uname pw now now2 uuid
        = (Inr (\<lparr>login_id = id_user user, login_username = username user,
                  login_is_admin = is_admin user\<rparr>,
                 \<lparr>cookie_key = ''session_id'', cookie_val = uuid, httponly = True,
                  max_age = 86400, samesite = ''lax''\<rparr>),
            db\<lparr>sessions := sessions db @
                  [\<lparr>session_id = uuid, user_id = id_user user, created_at_session = now2,
                    expires_at = now + 86400000000\<rparr>]\<rparr>))"
proof (intro conjI allI impI)
  fix user salt
  assume stored: "find_one (by_username uname) (users db) = Some user
                  \<and> hash_password bcrypt pw salt = Some (password user)"
  then have short: "\<not> 72 < length pw"
    and hashed: "password user = (salt, bcrypt salt pw)"
    by (auto simp: hash_password_def hashpw_def split: if_splits)
  with stored show "login bcrypt db uname pw now now2 uuid
        = (Inr (\<lparr>login_id = id_user user, login_username = username user,
                  login_is_admin = is_admin user\<rparr>,
                 \<lparr>cookie_key = ''session_id'', cookie_val = uuid, httponly = True,
                  max_age = 86400, samesite = ''lax''\<rparr>),
            db\<lparr>sessions := sessions db @
                  [\<lparr>session_id = uuid, user_id = id_user user, created_at_session = now2,
                    expires_at = now + 86400000000\<rparr>]\<rparr>)"
    by (simp add: login_def verify_password_def insert_one_def SESSION_EXPIRY_HOURS_def
                  timedelta_hours_def)
qed (auto simp: login_def verify_password_def split: option.splits if_splits)

lemma login_stored_pair:
  "login toy_digest example_db ''alice'' ''wrong'' 50 51 ''t2''
     = (Inl (HTTPException 401 ''Credenziali non valide''), example_db)
   \<and> login toy_digest example_db ''alice'' ''pw123'' 50 51 ''t2''
     = (Inr (\<lparr>login_id = ''u1'', login_username = ''alice'', login_is_admin = False\<rparr>,
             \<lparr>cookie_key = ''session_id'', cookie_val = ''t2'', httponly = True,
              max_age = 86400, samesite = ''lax''\<rparr>),
        example_db\<lparr>sessions := [admin_session, alice_session,
           \<lparr>session_id = ''t2'', user_id = ''u1'', created_at_session = 51,
            expires_at = 86400000050\<rparr>]\<rparr>)"
  by (simp add: login_def example_defs query_defs SESSION_EXPIRY_HOURS_def
                timedelta_hours_def)

text \<open>
  Claim C5 asks that a failed login never tells whether the user name exists. The code
  gives both causes the same 401, but it verifies the password only after it has found
  a user, and nothing catches what the hasher raises. With a password of 73 bytes, a
  login under a name that no user has is answered with 401, a login under the name of a
  stored user with 500: the two answers differ in status and message.
\<close>

theorem login_long_password_tells_names_apart:
  "length (replicate 73 (CHR ''x'')) = 73
   \<and> find_one (by_username ''nobody'') (users example_db) = None
   \<and> login toy_digest example_db ''nobody'' (replicate 73 (CHR ''x'')) 50 51 ''t2''
       = (Inl (HTTPException 401 ''Credenziali non valide''), example_db)
   \<and> find_one (by_username ''alice'') (users example_db) = Some alice_doc
   \<and> login toy_digest example_db ''alice'' (replicate 73 (CHR ''x'')) 50 51 ''t2''
       = (Inl (HTTPException 500 ''Internal Server Error''), example_db)"
  by (simp add: login_def verify_password_def find_one_def by_username_def example_db_def
                admin_doc_def alice_doc_def)


section \<open>Logout\<close>

lemma delete_one_token_gone:
  "distinct (map session_id xs) \<Longrightarrow>
   find_one (by_session_id sid) (delete_one (by_session_id sid) xs) = None"
proof (induction xs)
  case Nil
  then show ?case by (simp add: find_one_def)
next
  case (Cons x xs)
  show ?case
  proof (cases "session_id x = sid")
    case True
    with Cons.prems have "\<forall>y\<in>set xs. session_id y \<noteq> sid" by (auto simp: image_iff)
    with True show ?thesis by (simp add: find_one_None_iff by_session_id_def)
  next
    case False
    from Cons.prems have "distinct (map session_id xs)" by simp
    from Cons.IH [OF this] False show ?thesis by (simp add: find_one_def by_session_id_def)
  qed
qed

text \<open>
  Claim C9. \<^verbatim>\<open>logout\<close> never fails: whatever the cookie, it answers with the same
  message and touches neither users nor posts. With a non-empty token it removes the
  session found under the token. When no session is stored under the token, the store
  is left exactly as it was. When tokens are unique in the store, the token is absent
  after the first call, so a second call with the same cookie gives the same answer
  and changes nothing.
\<close>

theorem logout_idempotent:
  "fst (logout db cookie) = (''Logout effettuato con successo'', ''session_id'')
   \<and> users (snd (logout db cookie)) = users db
   \<and> posts (snd (logout db cookie)) = posts db
   \<and> (\<forall>sid s. cookie = Some sid \<and> sid \<noteq> []
          \<and> find_one (by_session_id sid) (sessions db) = Some s \<longrightarrow>
        sessions (snd (logout db cookie)) = remove1 s (sessions db))
   \<and> ((\<forall>sid. cookie = Some sid \<longrightarrow> find_one (by_session_id sid) (sessions db) = None) \<longrightarrow>
        logout db cookie = ((''Logout effettuato con successo'', ''session_id''), db))
   \<and> (distinct (map session_id (sessions db)) \<longrightarrow>
        (\<forall>sid. cookie = Some sid \<and> sid \<noteq> [] \<longrightarrow>
           find_one (by_session_id sid) (sessions (snd (logout db cookie))) = None)
        \<and> logout (snd (logout db cookie)) cookie
            = ((''Logout effettuato con successo'', ''session_id''), snd (logout db cookie)))"
proof -
  have msg: "fst (logout db cookie) = (''Logout effettuato con successo'', ''session_id'')"
    by (simp add: logout_def)
  have frame: "users (snd (logout db cookie)) = users db"
              "posts (snd (logout db cookie)) = posts db"
    by (simp_all add: logout_def split: option.splits)
  have removed: "sessions (snd (logout db cookie)) = remove1 s (sessions db)"
    if "cookie = Some sid" "sid \<noteq> []" "find_one (by_session_id sid) (sessions db) = Some s"
    for sid s
    using that by (simp add: logout_def delete_one_remove1)
  have absent: "logout db cookie = ((''Logout effettuato con successo'', ''session_id''), db)"
    if "\<forall>sid. cookie = Some sid \<longrightarrow> find_one (by_session_id sid) (sessions db) = None"
    using that by (simp add: logout_def delete_one_absent split: option.splits)
  have gone: "find_one (by_session_id sid) (sessions (snd (logout db cookie))) = None"
    if "distinct (map session_id (sessions db))" "cookie = Some sid" "sid \<noteq> []" for sid
  proof -
    from that(2,3) have "sessions (snd (logout db cookie))
        = delete_one (by_session_id sid) (sessions db)"
      by (simp add: logout_def)
    with delete_one_token_gone [OF that(1), of sid] show ?thesis by (simp only:)
  qed
  have again: "logout (snd (logout db cookie)) cookie
            = ((''Logout effettuato con successo'', ''session_id''), snd (logout db cookie))"
    if d: "distinct (map session_id (sessions db))"
  proof (cases "\<exists>sid. cookie = Some sid \<and> sid \<noteq> []")
    case True
    then obtain sid where c: "cookie = Some sid" "sid \<noteq> []" by blast
    from gone [OF d c]
    have "delete_one (by_session_id sid) (sessions (snd (logout db cookie)))
            = sessions (snd (logout db cookie))"
      by (rule delete_one_absent)
    then have "(snd (logout db cookie))\<lparr>sessions :=
                  delete_one (by_session_id sid) (sessions (snd (logout db cookie)))\<rparr>
                = snd (logout db cookie)"
      by (simp only: database.update_convs) simp
    moreover have "logout db2 cookie
            = ((''Logout effettuato con successo'', ''session_id''),
               db2\<lparr>sessions := delete_one (by_session_id sid) (sessions db2)\<rparr>)" for db2
      using c by (simp add: logout_def)
    ultimately show ?thesis by (simp only:)
  next
    case False
    then show ?thesis by (auto simp: logout_def split: option.splits)
  qed
  show ?thesis
  proof (intro conjI impI allI)
    fix sid s
    assume "cookie = Some sid \<and> sid \<noteq> [] \<and> find_one (by_session_id sid) (sessions db) = Some s"
    then show "sessions (snd (logout db cookie)) = remove1 s (sessions db)"
      using removed by blast
  next
    fix sid
    assume d: "distinct (map session_id (sessions db))"
      and c: "cookie = Some sid \<and> sid \<noteq> []"
    from c have "cookie = Some sid" "sid \<noteq> []" by simp_all
    from gone [OF d this]
    show "find_one (by_session_id sid) (sessions (snd (logout db cookie))) = None" .
  next
    assume "\<forall>sid. cookie = Some sid \<longrightarrow> find_one (by_session_id sid) (sessions db) = None"
    then show "logout db cookie = ((''Logout effettuato con successo'', ''session_id''), db)"
      by (rule absent)
  next
    assume "distinct (map session_id (sessions db))"
    then show "logout (snd (logout db cookie)) cookie
            = ((''Logout effettuato con successo'', ''session_id''), snd (logout db cookie))"
      by (rule again)
  qed (simp_all only: msg frame)
qed

theorem logout_idempotent_witness:
  "logout example_db (Some ''t1'')
     = ((''Logout effettuato con successo'', ''session_id''),
        example_db\<lparr>sessions := [admin_session]\<rparr>)
   \<and> logout (example_db\<lparr>sessions := [admin_session]\<rparr>) (Some ''t1'')
     = ((''Logout effettuato con successo'', ''session_id''),
        example_db\<lparr>sessions := [admin_session]\<rparr>)"
proof -
  have first: "logout example_db (Some ''t1'')
     = ((''Logout effettuato con successo'', ''session_id''),
        example_db\<lparr>sessions := [admin_session]\<rparr>)"
    by (simp add: logout_def example_defs query_defs)
  have d: "distinct (map session_id (sessions example_db))"
    by (simp add: example_defs)
  from logout_idempotent [of example_db "Some ''t1''"] d
  have "logout (snd (logout example_db (Some ''t1''))) (Some ''t1'')
            = ((''Logout effettuato con successo'', ''session_id''),
               snd (logout example_db (Some ''t1'')))"
    by blast
  with first show ?thesis by simp
qed


section \<open>Bootstrap\<close>

lemma startups_settled:
  "find_one (by_username ''admin'') (users db) \<noteq> None \<Longrightarrow> startups bcrypt db envs = db"
  by (induction envs arbitrary: db) (auto simp: create_default_admin_def)

lemma create_default_admin_fresh:
  "find_one (by_username ''admin'') (users db) = None \<Longrightarrow>
   create_default_admin bcrypt db uuid salt now
     = db\<lparr>users := users db @
           [\<lparr>id_user = uuid, username = ''admin'',
             password = hashpw bcrypt ''admin'' salt,
             is_admin = True, created_at_user = now\<rparr>]\<rparr>"
  by (simp add: create_default_admin_def insert_one_def hash_password_def)

lemma create_default_admin_kept:
  "find_one (by_username ''admin'') (users db) \<noteq> None \<Longrightarrow>
   create_default_admin bcrypt db uuid salt now = db"
  by (auto simp: create_default_admin_def split: option.splits)

lemma create_default_admin_present:
  "find_one (by_username ''admin'') (users (create_default_admin bcrypt db uuid salt now))
     \<noteq> None"
proof (cases "find_one (by_username ''admin'') (users db) = None")
  case True
  show ?thesis
    unfolding create_default_admin_fresh [OF True]
    by (simp add: find_one_None_iff by_username_def)
next
  case False
  then show ?thesis by (simp add: create_default_admin_kept)
qed

lemma verify_hash_password:
  "length pw \<le> 72 \<Longrightarrow> verify_password bcrypt pw (hashpw bcrypt pw salt) = Some True"
  by (simp add: verify_password_def hashpw_def)

text \<open>
  Claim C8. When no user is named \<^verbatim>\<open>admin\<close>, \<^verbatim>\<open>create_default_admin\<close> appends
  one user with that name, the administrator flag set and the hash of the default
  secret \<^verbatim>\<open>admin\<close> (which verifies), and exactly one user then has the name. When such
  a user exists it changes nothing. Hence any number of startups in a row does what the
  first one does, and from a store with at most one user of that name they leave exactly
  one.
\<close>

theorem create_default_admin_idempotent:
  "(find_one (by_username ''admin'') (users db) = None \<longrightarrow>
      create_default_admin bcrypt db uuid salt now
        = db\<lparr>users := users db @
              [\<lparr>id_user = uuid, username = ''admin'',
                password = hashpw bcrypt ''admin'' salt,
                is_admin = True, created_at_user = now\<rparr>]\<rparr>
      \<and> verify_password bcrypt ''admin'' (hashpw bcrypt ''admin'' salt) = Some True
      \<and> length (filter (by_username ''admin'')
                  (users (create_default_admin bcrypt db uuid salt now))) = 1)
   \<and> (find_one (by_username ''admin'') (users db) \<noteq> None \<longrightarrow>
      create_default_admin bcrypt db uuid salt now = db)
   \<and> startups bcrypt db ((uuid, salt, now) # envs)
       = create_default_admin bcrypt db uuid salt now
   \<and> (length (filter (by_username ''admin'') (users db)) \<le> 1 \<longrightarrow>
      length (filter (by_username ''admin'')
                (users (startups bcrypt db ((uuid, salt, now) # envs)))) = 1)"
proof -
  have count: "length (filter (by_username ''admin'')
                  (users (create_default_admin bcrypt db uuid salt now))) = 1"
    if absent: "find_one (by_username ''admin'') (users db) = None"
  proof -
    from absent have "filter (by_username ''admin'') (users db) = []"
      by (simp add: find_one_None_iff filter_empty_conv)
    then show ?thesis
      unfolding create_default_admin_fresh [OF absent] by (simp add: by_username_def)
  qed
  have settled: "startups bcrypt db ((uuid, salt, now) # envs)
       = create_default_admin bcrypt db uuid salt now"
    by (simp add: startups_settled create_default_admin_present)
  have one: "length (filter (by_username ''admin'')
                (users (startups bcrypt db ((uuid, salt, now) # envs)))) = 1"
    if le: "length (filter (by_username ''admin'') (users db)) \<le> 1"
  proof (cases "find_one (by_username ''admin'') (users db) = None")
    case True
    from count [OF True] show ?thesis by (simp only: settled)
  next
    case False
    then have "filter (by_username ''admin'') (users db) \<noteq> []"
      by (auto simp: find_one_None_iff filter_empty_conv)
    then have "length (filter (by_username ''admin'') (users db)) \<noteq> 0" by simp
    with le have "length (filter (by_username ''admin'') (users db)) = 1" by linarith
    then show ?thesis by (simp only: settled create_default_admin_kept [OF False])
  qed
  have verifies: "verify_password bcrypt ''admin'' (hashpw bcrypt ''admin'' salt) = Some True"
    by (rule verify_hash_password) simp
  show ?thesis
    using create_default_admin_fresh create_default_admin_kept verifies
          count settled one
    by (intro conjI impI) assumption+
qed

theorem create_default_admin_idempotent_witness:
  "find_one (by_username ''admin'') (users \<lparr>users = [], sessions = [], posts = []\<rparr>) = None
   \<and> startups toy_digest \<lparr>users = [], sessions = [], posts = []\<rparr>
        [(''u0'', ''s0'', 0), (''u9'', ''s9'', 9), (''u8'', ''s8'', 8)]
      = \<lparr>users = [admin_doc], sessions = [], posts = []\<rparr>
   \<and> find_one (by_username ''admin'') (users example_db) \<noteq> None
   \<and> create_default_admin toy_digest example_db ''u9'' ''s9'' 9 = example_db"
proof -
  let ?e = "\<lparr>users = [], sessions = [], posts = []\<rparr> :: database"
  have absent: "find_one (by_username ''admin'') (users ?e) = None"
    by (simp add: find_one_def)
  have present: "find_one (by_username ''admin'') (users example_db) \<noteq> None"
    by (simp add: example_defs query_defs)
  note first = create_default_admin_idempotent
      [of ?e toy_digest "''u0''" "''s0''" 0 "[(''u9'', ''s9'', 9), (''u8'', ''s8'', 8)]"]
  note second = create_default_admin_idempotent [of example_db toy_digest "''u9''" "''s9''" 9 "[]"]
  from first absent have run: "create_default_admin toy_digest ?e ''u0'' ''s0'' 0
      = ?e\<lparr>users := users ?e @
              [\<lparr>id_user = ''u0'', username = ''admin'',
                password = hashpw toy_digest ''admin'' ''s0'',
                is_admin = True, created_at_user = 0\<rparr>]\<rparr>"
    by blast
  from first have "startups toy_digest ?e
        [(''u0'', ''s0'', 0), (''u9'', ''s9'', 9), (''u8'', ''s8'', 8)]
      = create_default_admin toy_digest ?e ''u0'' ''s0'' 0"
    by blast
  then have a: "startups toy_digest ?e
        [(''u0'', ''s0'', 0), (''u9'', ''s9'', 9), (''u8'', ''s8'', 8)]
      = \<lparr>users = [admin_doc], sessions = [], posts = []\<rparr>"
    by (simp only: run) (simp add: example_defs)
  from second present have b: "create_default_admin toy_digest example_db ''u9'' ''s9'' 9 = example_db"
    by blast
  from absent a present b show ?thesis by (intro conjI)
qed


section \<open>Who can be an administrator\<close>

text \<open>
  Only \<^verbatim>\<open>create_default_admin\<close>, \<^verbatim>\<open>create_user\<close>, \<^verbatim>\<open>delete_user\<close> and
  \<^verbatim>\<open>update_user_password\<close> write the user collection. Each of them keeps user names
  unique and keeps the administrator flag on exactly the users named \<^verbatim>\<open>admin\<close>; so both
  hold in every store the service can reach.
\<close>

lemma users_after_read:
  "users (snd (login bcrypt db uname pw now now2 uuid)) = users db"
  "users (snd (logout db cookie)) = users db"
  "users (snd (get_current_user db cookie now)) = users db"
  "users (snd (get_users db cookie now)) = users db"
  "users (snd (get_posts sort_desc db cookie now)) = users db"
  "users (snd (create_post db text cookie now now2 uuid)) = users db"
  "users (snd (delete_post db pid cookie now)) = users db"
  "users (snd (search_posts sort_desc regex db q cookie now)) = users db"
  "users (snd (get_user_posts sort_desc db uid cookie now)) = users db"
  by (simp_all add: login_def logout_def get_current_user_def get_users_def get_posts_def
        create_post_def delete_post_def search_posts_def get_user_posts_def
        case_prod_beta resolve_users Let_def split: option.splits)

lemma resolve_identity_stored:
  "fst (get_user_from_session db cookie now) = Some p \<Longrightarrow>
   \<exists>u\<in>set (users db). p = project_user u"
  by (auto simp: get_user_from_session_def split: option.splits if_splits
           dest: find_one_SomeD)

lemma distinct_delete_one: "distinct (map f xs) \<Longrightarrow> distinct (map f (delete_one q xs))"
proof (induction xs)
  case Nil
  then show ?case by simp
next
  case (Cons x xs)
  have "f ` set (delete_one q xs) \<subseteq> f ` set xs"
    using set_delete_one [of q xs] by blast
  with Cons show ?case by auto
qed

lemma update_one_same_map: "(\<And>x. g (f x) = g x) \<Longrightarrow> map g (update_one q f xs) = map g xs"
  by (induction xs) simp_all

lemma update_one_password_seed:
  "\<forall>v\<in>set xs. is_admin v \<longleftrightarrow> username v = name \<Longrightarrow>
   \<forall>u\<in>set (update_one q (\<lambda>u. u\<lparr>password := h\<rparr>) xs). is_admin u \<longleftrightarrow> username u = name"
  by (induction xs) simp_all

lemma admin_gate_passed:
  assumes "\<not> not_admin (fst (get_user_from_session db cookie now))"
  shows "\<exists>u\<in>set (users db). is_admin u"
proof -
  from assms obtain p where p: "fst (get_user_from_session db cookie now) = Some p"
    and "pub_is_admin p"
    by (cases "fst (get_user_from_session db cookie now)") (auto simp: not_admin_def)
  with resolve_identity_stored [OF p] show ?thesis by (auto simp: project_user_def)
qed

lemma startup_keeps_seed:
  assumes "distinct (map username (users db))"
    and "\<forall>u\<in>set (users db). is_admin u \<longleftrightarrow> username u = ''admin''"
  shows "distinct (map username (users (create_default_admin bcrypt db uuid salt now)))
       \<and> (\<forall>u\<in>set (users (create_default_admin bcrypt db uuid salt now)).
             is_admin u \<longleftrightarrow> username u = ''admin'')"
proof (cases "find_one (by_username ''admin'') (users db) = None")
  case True
  then have "\<forall>u\<in>set (users db). username u \<noteq> ''admin''"
    by (simp add: find_one_None_iff by_username_def)
  with assms show ?thesis
    unfolding create_default_admin_fresh [OF True] by auto
next
  case False
  with assms show ?thesis by (simp add: create_default_admin_kept)
qed

lemma create_user_keeps_seed:
  assumes "distinct (map username (users db))"
    and "\<forall>u\<in>set (users db). is_admin u \<longleftrightarrow> username u = ''admin''"
  shows "distinct (map username
           (users (snd (create_user bcrypt db uname pw cookie now now2 uuid salt))))
       \<and> (\<forall>u\<in>set (users (snd (create_user bcrypt db uname pw cookie now now2 uuid salt))).
             is_admin u \<longleftrightarrow> username u = ''admin'')"
proof (cases "\<not> not_admin (fst (get_user_from_session db cookie now))
              \<and> find_one (by_username uname) (users db) = None \<and> \<not> 72 < length pw")
  case True
  then have fresh: "\<forall>u\<in>set (users db). username u \<noteq> uname"
    by (simp add: find_one_None_iff by_username_def)
  from True admin_gate_passed obtain a where "a \<in> set (users db)" "is_admin a" by blast
  with assms(2) have "username a = ''admin''" by blast
  with fresh \<open>a \<in> set (users db)\<close> have "uname \<noteq> ''admin''" by blast
  moreover from True have "users (snd (create_user bcrypt db uname pw cookie now now2 uuid salt))
      = users db @ [\<lparr>id_user = uuid, username = uname, password = hashpw bcrypt pw salt,
                      is_admin = False, created_at_user = now2\<rparr>]"
    by (simp add: create_user_def case_prod_beta resolve_users insert_one_def
                  hash_password_def Let_def)
  ultimately show ?thesis using assms fresh by auto
next
  case False
  then have "users (snd (create_user bcrypt db uname pw cookie now now2 uuid salt)) = users db"
    by (auto simp: create_user_def case_prod_beta resolve_users hash_password_def
             split: option.splits)
  with assms show ?thesis by simp
qed

lemma delete_user_keeps_seed:
  assumes "distinct (map username (users db))"
    and "\<forall>u\<in>set (users db). is_admin u \<longleftrightarrow> username u = ''admin''"
  shows "distinct (map username (users (snd (delete_user db uid cookie now))))
       \<and> (\<forall>u\<in>set (users (snd (delete_user db uid cookie now))).
             is_admin u \<longleftrightarrow> username u = ''admin'')"
proof -
  have "users (snd (delete_user db uid cookie now)) = users db
        \<or> users (snd (delete_user db uid cookie now)) = delete_one (by_id uid) (users db)"
    by (simp add: delete_user_def case_prod_beta resolve_users)
  then show ?thesis
  proof
    assume "users (snd (delete_user db uid cookie now)) = users db"
    with assms show ?thesis by simp
  next
    assume del: "users (snd (delete_user db uid cookie now)) = delete_one (by_id uid) (users db)"
    from assms(1) have "distinct (map username (delete_one (by_id uid) (users db)))"
      by (rule distinct_delete_one)
    moreover from assms(2) set_delete_one [of "by_id uid" "users db"]
    have "\<forall>u\<in>set (delete_one (by_id uid) (users db)). is_admin u \<longleftrightarrow> username u = ''admin''"
      by blast
    ultimately show ?thesis by (simp only: del) 
  qed
qed

lemma update_user_password_keeps_seed:
  assumes "distinct (map username (users db))"
    and "\<forall>u\<in>set (users db). is_admin u \<longleftrightarrow> username u = ''admin''"
  shows "distinct (map username
           (users (snd (update_user_password bcrypt db uid new_password cookie now salt))))
       \<and> (\<forall>u\<in>set (users (snd (update_user_password bcrypt db uid new_password cookie now salt))).
             is_admin u \<longleftrightarrow> username u = ''admin'')"
proof -
  let ?h = "hashpw bcrypt new_password salt"
  let ?us = "update_one (by_id uid) (\<lambda>u. u\<lparr>password := ?h\<rparr>) (users db)"
  have "users (snd (update_user_password bcrypt db uid new_password cookie now salt)) = users db
        \<or> users (snd (update_user_password bcrypt db uid new_password cookie now salt)) = ?us"
    by (simp add: update_user_password_def case_prod_beta resolve_users hash_password_def)
  then show ?thesis
  proof
    assume "users (snd (update_user_password bcrypt db uid new_password cookie now salt))
              = users db"
    with assms show ?thesis by simp
  next
    assume upd: "users (snd (update_user_password bcrypt db uid new_password cookie now salt))
              = ?us"
    have "map username ?us = map username (users db)"
      by (rule update_one_same_map) simp
    with assms(1) have "distinct (map username ?us)" by simp
    moreover from assms(2) have "\<forall>u\<in>set ?us. is_admin u \<longleftrightarrow> username u = ''admin''"
      by (rule update_one_password_seed)
    ultimately show ?thesis by (simp only: upd)
  qed
qed

lemma reachable_seed_only:
  "reachable bcrypt db \<Longrightarrow>
   distinct (map username (users db))
   \<and> (\<forall>u\<in>set (users db). is_admin u \<longleftrightarrow> username u = ''admin'')"
proof (induction rule: reachable.induct)
  case empty_store
  show ?case by simp
next
  case (startup_event db uuid salt now)
  then have d: "distinct (map username (users db))"
    and a: "\<forall>u\<in>set (users db). is_admin u \<longleftrightarrow> username u = ''admin''"
    by simp_all
  from startup_keeps_seed [OF d a] show ?case .
next
  case (req_create_user db uname pw cookie now now2 uuid salt)
  then have d: "distinct (map username (users db))"
    and a: "\<forall>u\<in>set (users db). is_admin u \<longleftrightarrow> username u = ''admin''"
    by simp_all
  from create_user_keeps_seed [OF d a] show ?case .
next
  case (req_delete_user db uid cookie now)
  then have d: "distinct (map username (users db))"
    and a: "\<forall>u\<in>set (users db). is_admin u \<longleftrightarrow> username u = ''admin''"
    by simp_all
  from delete_user_keeps_seed [OF d a] show ?case .
next
  case (req_update_user_password db uid new_password cookie now salt)
  then have d: "distinct (map username (users db))"
    and a: "\<forall>u\<in>set (users db). is_admin u \<longleftrightarrow> username u = ''admin''"
    by simp_all
  from update_user_password_keeps_seed [OF d a] show ?case .
qed (simp_all add: users_after_read)

lemma at_most_one_by_name:
  "distinct (map username xs) \<Longrightarrow> length (filter (by_username name) xs) \<le> 1"
proof (induction xs)
  case Nil
  then show ?case by simp
next
  case (Cons x xs)
  show ?case
  proof (cases "username x = name")
    case True
    with Cons.prems have "\<forall>y\<in>set xs. username y \<noteq> name"
      by (auto simp: image_iff)
    then have "filter (by_username name) xs = []"
      by (simp add: filter_empty_conv by_username_def)
    then show ?thesis by simp
  next
    case False
    from Cons.prems have "distinct (map username xs)" by simp
    from Cons.IH [OF this] False show ?thesis by (simp add: by_username_def)
  qed
qed

lemma create_user_success:
  assumes "create_user bcrypt db uname pw cookie now now2 uuid salt = (Inr r, db')"
  shows "r = project_user \<lparr>id_user = uuid, username = uname,
                           password = hashpw bcrypt pw salt,
                           is_admin = False, created_at_user = now2\<rparr>"
    and "db' = db\<lparr>users := users db @
                 [\<lparr>id_user = uuid, username = uname,
                   password = hashpw bcrypt pw salt,
                   is_admin = False, created_at_user = now2\<rparr>]\<rparr>"
  using assms resolve_admin_granted [of db cookie now]
  by (auto simp: create_user_def case_prod_beta insert_one_def hash_password_def Let_def
           split: if_splits option.splits)

text \<open>
  Claim C10. A user that \<^verbatim>\<open>create_user\<close> creates has the administrator flag false,
  in the stored document and in the response, whoever calls. In every store reachable
  through startups and requests, a user has the flag exactly when its name is
  \<^verbatim>\<open>admin\<close>, and at most one user has it: the account seeded at startup.
\<close>

theorem create_user_never_admin:
  "(\<forall>r db'. create_user bcrypt db uname pw cookie now now2 uuid salt = (Inr r, db') \<longrightarrow>
       \<not> pub_is_admin r
       \<and> users db' = users db @
             [\<lparr>id_user = uuid, username = uname, password = hashpw bcrypt pw salt,
               is_admin = False, created_at_user = now2\<rparr>])
   \<and> (reachable bcrypt db \<longrightarrow>
        (\<forall>u\<in>set (users db). is_admin u \<longleftrightarrow> username u = ''admin'')
        \<and> length (filter is_admin (users db)) \<le> 1)"
proof (intro conjI allI impI)
  fix r db'
  assume run: "create_user bcrypt db uname pw cookie now now2 uuid salt = (Inr r, db')"
  from create_user_success(1) [OF run] show "\<not> pub_is_admin r"
    by (simp add: project_user_def)
  from create_user_success(2) [OF run]
  show "users db' = users db @
             [\<lparr>id_user = uuid, username = uname, password = hashpw bcrypt pw salt,
               is_admin = False, created_at_user = now2\<rparr>]"
    by simp
next
  assume r: "reachable bcrypt db"
  from reachable_seed_only [OF r]
  show seed: "\<forall>u\<in>set (users db). is_admin u \<longleftrightarrow> username u = ''admin''"
    by (rule conjunct2)
  from reachable_seed_only [OF r] have "distinct (map username (users db))"
    by (rule conjunct1)
  then have "length (filter (by_username ''admin'') (users db)) \<le> 1"
    by (rule at_most_one_by_name)
  moreover from seed have "filter is_admin (users db) = filter (by_username ''admin'') (users db)"
    by (intro filter_cong) (simp_all add: by_username_def)
  ultimately show "length (filter is_admin (users db)) \<le> 1" by simp
qed

theorem create_user_never_admin_witness:
  "create_user toy_digest example_db ''bob'' ''pw'' (Some ''t0'') 50 51 ''u2'' ''s2''
     = (Inr \<lparr>pub_id = ''u2'', pub_username = ''bob'', pub_is_admin = False,
             pub_created_at = 51\<rparr>,
        example_db\<lparr>users := [admin_doc, alice_doc,
            \<lparr>id_user = ''u2'', username = ''bob'', password = (''s2'', ''s2$pw''),
             is_admin = False, created_at_user = 51\<rparr>]\<rparr>)
   \<and> \<not> pub_is_admin \<lparr>pub_id = ''u2'', pub_username = ''bob'', pub_is_admin = False,
                       pub_created_at = 51\<rparr>
   \<and> reachable toy_digest \<lparr>users = [admin_doc], sessions = [], posts = []\<rparr>
   \<and> length (filter is_admin (users \<lparr>users = [admin_doc], sessions = [], posts = []\<rparr>)) \<le> 1"
proof -
  have run: "create_user toy_digest example_db ''bob'' ''pw'' (Some ''t0'') 50 51 ''u2'' ''s2''
     = (Inr \<lparr>pub_id = ''u2'', pub_username = ''bob'', pub_is_admin = False,
             pub_created_at = 51\<rparr>,
        example_db\<lparr>users := [admin_doc, alice_doc,
            \<lparr>id_user = ''u2'', username = ''bob'', password = (''s2'', ''s2$pw''),
             is_admin = False, created_at_user = 51\<rparr>]\<rparr>)"
    by (simp add: create_user_def get_user_from_session_def example_defs query_defs)
  have "reachable toy_digest
          (create_default_admin toy_digest \<lparr>users = [], sessions = [], posts = []\<rparr>
             ''u0'' ''s0'' 0)"
    by (rule reachable.startup_event) (rule reachable.empty_store)
  then have seeded: "reachable toy_digest \<lparr>users = [admin_doc], sessions = [], posts = []\<rparr>"
    by (simp add: create_default_admin_def example_defs query_defs)
  note created = create_user_never_admin
      [of toy_digest example_db "''bob''" "''pw''" "Some ''t0''" 50 51 "''u2''" "''s2''"]
  note bounded = create_user_never_admin
      [of toy_digest "\<lparr>users = [admin_doc], sessions = [], posts = []\<rparr>"]
  from created run
  have a: "\<not> pub_is_admin \<lparr>pub_id = ''u2'', pub_username = ''bob'', pub_is_admin = False,
                       pub_created_at = 51\<rparr>"
    by blast
  from bounded seeded
  have b: "length (filter is_admin (users \<lparr>users = [admin_doc], sessions = [], posts = []\<rparr>)) \<le> 1"
    by blast
  from run a seeded b show ?thesis by (intro conjI)
qed


section \<open>Deleting a user\<close>

lemma delete_user_success:
  assumes "delete_user db uid cookie now = (Inr msg, db')"
  shows "db' = db\<lparr>users := delete_one (by_id uid) (users db),
                  sessions := delete_many (by_user_id uid) (sessions db),
                  posts := delete_many (by_author_id uid) (posts db)\<rparr>"
    and "find_one (by_id uid) (users db) \<noteq> None"
  using assms resolve_admin_granted [of db cookie now]
  by (auto simp: delete_user_def case_prod_beta matched_count_def
           split: if_splits option.splits)

lemma distinct_remove1_others:
  "distinct (map f xs) \<Longrightarrow> x \<in> set xs \<Longrightarrow> \<forall>y\<in>set (remove1 x xs). f y \<noteq> f x"
proof (induction xs)
  case Nil
  then show ?case by simp
next
  case (Cons z zs)
  from Cons.prems(1) have dz: "distinct (map f zs)" and nz: "\<forall>y\<in>set zs. f y \<noteq> f z"
    by (auto simp: image_iff)
  show ?case
  proof (cases "x = z")
    case True
    with nz show ?thesis by simp
  next
    case False
    with Cons.prems(2) have "x \<in> set zs" by simp
    from Cons.IH [OF dz this] nz \<open>x \<in> set zs\<close> False show ?thesis by auto
  qed
qed

text \<open>
  Claim C6. When \<^verbatim>\<open>delete_user\<close> succeeds, the user document found under the
  identifier is removed (and with unique identifiers no document is left under it);
  the sessions and posts that remain are exactly those of other users, so no session
  owned by and no post authored by the deleted user is left; a token that was stored
  only for that user resolves to \<open>None\<close> afterwards; and, user names being unique (as
  they are in every reachable store), a later login under the deleted user's name fails
  with the invalid-credentials error.
\<close>

theorem delete_user_cascades:
  assumes "delete_user db uid cookie now = (Inr msg, db')"
  shows "(\<exists>target. find_one (by_id uid) (users db) = Some target
            \<and> users db' = remove1 target (users db)
            \<and> (distinct (map username (users db)) \<longrightarrow>
                 login bcrypt db' (username target) pw n1 n2 uuid
                   = (Inl (HTTPException 401 ''Credenziali non valide''), db')))
       \<and> (distinct (map id_user (users db)) \<longrightarrow> find_one (by_id uid) (users db') = None)
       \<and> sessions db' = filter (\<lambda>s. user_id s \<noteq> uid) (sessions db)
       \<and> posts db' = filter (\<lambda>p. author_id p \<noteq> uid) (posts db)
       \<and> (\<forall>s\<in>set (sessions db'). user_id s \<noteq> uid)
       \<and> (\<forall>p\<in>set (posts db'). author_id p \<noteq> uid)
       \<and> ((\<forall>s\<in>set (sessions db). session_id s = t \<longrightarrow> user_id s = uid)
            \<longrightarrow> fst (get_user_from_session db' (Some t) now') = None)"
proof -
  note run = delete_user_success [OF assms]
  from run(2) obtain target where target: "find_one (by_id uid) (users db) = Some target"
    by auto
  from find_one_SomeD [OF target] have mem: "target \<in> set (users db)"
    and tid: "id_user target = uid"
    by (simp_all add: by_id_def)
  have removed: "users db' = remove1 target (users db)"
    by (simp add: run(1) delete_one_remove1 [OF target])
  have login_fails: "login bcrypt db' (username target) pw n1 n2 uuid
                   = (Inl (HTTPException 401 ''Credenziali non valide''), db')"
    if d: "distinct (map username (users db))"
  proof -
    from distinct_remove1_others [OF d mem]
    have "find_one (by_username (username target)) (users db') = None"
      by (simp add: removed find_one_None_iff by_username_def)
    then show ?thesis by (simp add: login_def)
  qed
  have id_gone: "find_one (by_id uid) (users db') = None"
    if d: "distinct (map id_user (users db))"
    using distinct_remove1_others [OF d mem] tid
    by (simp add: removed find_one_None_iff by_id_def)
  have kept_s: "sessions db' = filter (\<lambda>s. user_id s \<noteq> uid) (sessions db)"
    by (simp add: run(1) delete_many_def by_user_id_def)
  have kept_p: "posts db' = filter (\<lambda>p. author_id p \<noteq> uid) (posts db)"
    by (simp add: run(1) delete_many_def by_author_id_def)
  from kept_s have no_s: "\<forall>s\<in>set (sessions db'). user_id s \<noteq> uid" by simp
  from kept_p have no_p: "\<forall>p\<in>set (posts db'). author_id p \<noteq> uid" by simp
  have revoked: "fst (get_user_from_session db' (Some t) now') = None"
    if own: "\<forall>s\<in>set (sessions db). session_id s = t \<longrightarrow> user_id s = uid"
  proof (rule resolve_no_session)
    show "\<forall>s\<in>set (sessions db'). session_id s \<noteq> t"
      using own kept_s by auto
  qed
  show ?thesis
  proof (intro conjI impI exI [of _ target])
    show "find_one (by_id uid) (users db) = Some target" by (fact target)
    show "users db' = remove1 target (users db)" by (fact removed)
    show "sessions db' = filter (\<lambda>s. user_id s \<noteq> uid) (sessions db)" by (fact kept_s)
    show "posts db' = filter (\<lambda>p. author_id p \<noteq> uid) (posts db)" by (fact kept_p)
    show "\<forall>s\<in>set (sessions db'). user_id s \<noteq> uid" by (fact no_s)
    show "\<forall>p\<in>set (posts db'). author_id p \<noteq> uid" by (fact no_p)
  next
    assume "distinct (map username (users db))"
    then show "login bcrypt db' (username target) pw n1 n2 uuid
                   = (Inl (HTTPException 401 ''Credenziali non valide''), db')"
      by (rule login_fails)
  next
    assume "distinct (map id_user (users db))"
    then show "find_one (by_id uid) (users db') = None" by (rule id_gone)
  next
    assume "\<forall>s\<in>set (sessions db). session_id s = t \<longrightarrow> user_id s = uid"
    then show "fst (get_user_from_session db' (Some t) now') = None" by (rule revoked)
  qed
qed

theorem delete_user_cascades_witness:
  "delete_user example_db ''u1'' (Some ''t0'') 50
     = (Inr ''Utente eliminato con successo'',
        \<lparr>users = [admin_doc], sessions = [admin_session], posts = []\<rparr>)
   \<and> login toy_digest \<lparr>users = [admin_doc], sessions = [admin_session], posts = []\<rparr>
        ''alice'' ''pw123'' 60 61 ''t2''
     = (Inl (HTTPException 401 ''Credenziali non valide''),
        \<lparr>users = [admin_doc], sessions = [admin_session], posts = []\<rparr>)
   \<and> fst (get_user_from_session
        \<lparr>users = [admin_doc], sessions = [admin_session], posts = []\<rparr> (Some ''t1'') 60) = None"
proof -
  let ?after = "\<lparr>users = [admin_doc], sessions = [admin_session], posts = []\<rparr>"
  have run: "delete_user example_db ''u1'' (Some ''t0'') 50
     = (Inr ''Utente eliminato con successo'', ?after)"
    by (simp add: delete_user_def get_user_from_session_def example_defs query_defs)
  have target: "find_one (by_id ''u1'') (users example_db) = Some alice_doc"
    by (simp add: example_defs query_defs)
  have names: "distinct (map username (users example_db))"
    by (simp add: example_defs)
  have own: "\<forall>s\<in>set (sessions example_db). session_id s = ''t1'' \<longrightarrow> user_id s = ''u1''"
    by (simp add: example_defs)
  note cascade = delete_user_cascades
    [OF run, of toy_digest "''pw123''" 60 61 "''t2''" "''t1''" 60]
  from cascade target names
  have "login toy_digest ?after (username alice_doc) ''pw123'' 60 61 ''t2''
          = (Inl (HTTPException 401 ''Credenziali non valide''), ?after)"
    by auto
  then have a: "login toy_digest ?after ''alice'' ''pw123'' 60 61 ''t2''
          = (Inl (HTTPException 401 ''Credenziali non valide''), ?after)"
    by (simp add: alice_doc_def)
  from cascade own have b: "fst (get_user_from_session ?after (Some ''t1'') 60) = None"
    by (elim conjE) (erule mp)
  from run a b show ?thesis by (intro conjI)
qed


section \<open>The password hash stays inside the store\<close>

text \<open>
  Every filter the code applies to users reads the identifier or the name, never the
  hash; so two stores whose users agree up to their password hashes answer alike.
\<close>

lemma find_one_same_public:
  assumes "\<And>u v. project_user u = project_user v \<Longrightarrow> q u = q v"
  shows "map project_user xs = map project_user ys \<Longrightarrow>
         map_option project_user (find_one q xs) = map_option project_user (find_one q ys)"
proof (induction xs arbitrary: ys)
  case Nil
  then show ?case by (simp add: find_one_def)
next
  case (Cons x xs)
  then obtain y ys' where ys: "ys = y # ys'" by (cases ys) auto
  with Cons.prems have hd: "project_user x = project_user y"
    and tl: "map project_user xs = map project_user ys'"
    by simp_all
  from assms [OF hd] have "q x = q y" .
  with Cons.IH [OF tl] hd show ?case
    by (simp add: ys find_one_def)
qed

lemma by_id_public: "project_user u = project_user v \<Longrightarrow> by_id i u = by_id i v"
proof -
  assume "project_user u = project_user v"
  then have "pub_id (project_user u) = pub_id (project_user v)" by simp
  then show ?thesis by (simp add: project_user_def by_id_def)
qed

lemma by_username_public:
  "project_user u = project_user v \<Longrightarrow> by_username n u = by_username n v"
proof -
  assume "project_user u = project_user v"
  then have "pub_username (project_user u) = pub_username (project_user v)" by simp
  then show ?thesis by (simp add: project_user_def by_username_def)
qed

lemma resolve_same_public:
  assumes "map project_user (users db2) = map project_user (users db1)"
    and "sessions db2 = sessions db1"
  shows "fst (get_user_from_session db2 cookie now) = fst (get_user_from_session db1 cookie now)"
    and "sessions (snd (get_user_from_session db2 cookie now))
           = sessions (snd (get_user_from_session db1 cookie now))"
  using find_one_same_public [of "by_id _" "users db2" "users db1", OF by_id_public assms(1)]
  by (simp_all add: get_user_from_session_def assms(2) split: option.splits)

lemma find_one_None_same_public:
  assumes "\<And>u v. project_user u = project_user v \<Longrightarrow> q u = q v"
    and "map project_user xs = map project_user ys"
  shows "(find_one q xs = None) = (find_one q ys = None)"
  using find_one_same_public [of q xs ys, OF assms] by (metis option.map_disc_iff)

lemma admin_responses_same_public:
  assumes "map project_user (users db2) = map project_user (users db1)"
    and "sessions db2 = sessions db1"
  shows "fst (get_current_user db2 cookie now) = fst (get_current_user db1 cookie now)"
    and "fst (get_users db2 cookie now) = fst (get_users db1 cookie now)"
    and "fst (create_user bcrypt db2 uname pw cookie now now2 uuid salt)
           = fst (create_user bcrypt db1 uname pw cookie now now2 uuid salt)"
proof -
  note res = resolve_same_public [OF assms]
  show "fst (get_current_user db2 cookie now) = fst (get_current_user db1 cookie now)"
    by (simp add: get_current_user_def case_prod_beta res(1) split: option.splits)
  show "fst (get_users db2 cookie now) = fst (get_users db1 cookie now)"
    by (simp add: get_users_def case_prod_beta res(1) resolve_users assms(1))
  have "(find_one (by_username uname) (users db2) = None)
          = (find_one (by_username uname) (users db1) = None)"
    by (rule find_one_None_same_public [OF by_username_public assms(1)])
  then show "fst (create_user bcrypt db2 uname pw cookie now now2 uuid salt)
           = fst (create_user bcrypt db1 uname pw cookie now now2 uuid salt)"
    by (cases "find_one (by_username uname) (users db1)";
        cases "find_one (by_username uname) (users db2)")
       (simp_all add: create_user_def case_prod_beta res(1) resolve_users hash_password_def
                      Let_def)
qed

lemma other_responses_same_public:
  assumes "map project_user (users db2) = map project_user (users db1)"
    and "sessions db2 = sessions db1"
    and "posts db2 = posts db1"
  shows "fst (delete_user db2 uid cookie now) = fst (delete_user db1 uid cookie now)"
    and "fst (update_user_password bcrypt db2 uid new_password cookie now salt)
           = fst (update_user_password bcrypt db1 uid new_password cookie now salt)"
    and "fst (logout db2 cookie) = fst (logout db1 cookie)"
    and "fst (get_posts sort_desc db2 cookie now) = fst (get_posts sort_desc db1 cookie now)"
    and "fst (create_post db2 text cookie now now2 uuid)
           = fst (create_post db1 text cookie now now2 uuid)"
    and "fst (delete_post db2 pid cookie now) = fst (delete_post db1 pid cookie now)"
    and "fst (search_posts sort_desc regex db2 q cookie now)
           = fst (search_posts sort_desc regex db1 q cookie now)"
    and "fst (get_user_posts sort_desc db2 uid cookie now)
           = fst (get_user_posts sort_desc db1 uid cookie now)"
proof -
  note res = resolve_same_public [OF assms(1,2)]
  have target: "map_option project_user (find_one (by_id uid) (users db2))
                  = map_option project_user (find_one (by_id uid) (users db1))"
    by (rule find_one_same_public [OF by_id_public assms(1)])
  have name: "username a = username b" if "project_user a = project_user b" for a b
  proof -
    from that have "pub_username (project_user a) = pub_username (project_user b)" by simp
    then show ?thesis by (simp add: project_user_def)
  qed
  have adm: "(case find_one (by_id uid) (users db2) of
                None \<Rightarrow> False | Some t \<Rightarrow> username t = ''admin'')
             = (case find_one (by_id uid) (users db1) of
                None \<Rightarrow> False | Some t \<Rightarrow> username t = ''admin'')"
  proof (cases "find_one (by_id uid) (users db1)")
    case None
    with target show ?thesis by simp
  next
    case (Some b)
    with target obtain a where a: "find_one (by_id uid) (users db2) = Some a"
      and "project_user a = project_user b"
      by auto
    from name [OF this(2)] a Some show ?thesis by simp
  qed
  have cnt: "matched_count (by_id uid) (users db2) = matched_count (by_id uid) (users db1)"
    using target
    by (cases "find_one (by_id uid) (users db1)"; cases "find_one (by_id uid) (users db2)")
       (simp_all add: matched_count_def)
  show "fst (delete_user db2 uid cookie now) = fst (delete_user db1 uid cookie now)"
    by (simp add: delete_user_def case_prod_beta res(1) resolve_users adm cnt)
  show "fst (update_user_password bcrypt db2 uid new_password cookie now salt)
           = fst (update_user_password bcrypt db1 uid new_password cookie now salt)"
    by (simp add: update_user_password_def case_prod_beta res(1) resolve_users cnt
                  hash_password_def)
  show "fst (logout db2 cookie) = fst (logout db1 cookie)"
    by (simp add: logout_def)
  show "fst (get_posts sort_desc db2 cookie now) = fst (get_posts sort_desc db1 cookie now)"
    by (simp add: get_posts_def case_prod_beta res(1) resolve_posts assms(3)
             split: option.splits)
  show "fst (create_post db2 text cookie now now2 uuid)
           = fst (create_post db1 text cookie now now2 uuid)"
    by (simp add: create_post_def case_prod_beta res(1) Let_def split: option.splits)
  show "fst (delete_post db2 pid cookie now) = fst (delete_post db1 pid cookie now)"
    by (simp add: delete_post_def case_prod_beta res(1) resolve_posts assms(3)
             split: option.splits)
  show "fst (search_posts sort_desc regex db2 q cookie now)
           = fst (search_posts sort_desc regex db1 q cookie now)"
    by (simp add: search_posts_def case_prod_beta res(1) resolve_posts assms(3)
             split: option.splits)
  show "fst (get_user_posts sort_desc db2 uid cookie now)
           = fst (get_user_posts sort_desc db1 uid cookie now)"
    by (simp add: get_user_posts_def case_prod_beta res(1) resolve_posts assms(3)
             split: option.splits)
qed

lemma login_success:
  assumes "login bcrypt db uname pw now now2 uuid = (Inr r, db')"
  shows "\<exists>u. find_one (by_username uname) (users db) = Some u
           \<and> r = (\<lparr>login_id = pub_id (project_user u),
                     login_username = pub_username (project_user u),
                     login_is_admin = pub_is_admin (project_user u)\<rparr>,
                    \<lparr>cookie_key = ''session_id'', cookie_val = uuid, httponly = True,
                     max_age = 86400, samesite = ''lax''\<rparr>)"
  using assms
  by (auto simp: login_def Let_def SESSION_EXPIRY_HOURS_def project_user_def
           split: option.splits if_splits)

text \<open>
  Claim C7. Take two stores with the same sessions and posts whose user collections
  have the same projection \<^verbatim>\<open>{"_id": 0, "password": 0}\<close>, that is, which differ at
  most in the stored password hashes. Then session resolution returns the same identity
  on both, and every endpoint other than login gives the same response on both: no
  response depends on a stored hash. Login needs the hash to verify the password; when
  it succeeds on both stores (whatever the passwords given) the responses are equal,
  and a successful login response consists of the identifier, name and administrator
  flag of a stored user, and of the session cookie.
\<close>

theorem password_never_in_result:
  assumes "map project_user (users db2) = map project_user (users db1)"
    and "sessions db2 = sessions db1"
    and "posts db2 = posts db1"
  shows "fst (get_user_from_session db2 cookie now) = fst (get_user_from_session db1 cookie now)
       \<and> fst (get_current_user db2 cookie now) = fst (get_current_user db1 cookie now)
       \<and> fst (get_users db2 cookie now) = fst (get_users db1 cookie now)
       \<and> fst (create_user bcrypt db2 uname pw cookie now now2 uuid salt)
           = fst (create_user bcrypt db1 uname pw cookie now now2 uuid salt)
       \<and> fst (delete_user db2 uid cookie now) = fst (delete_user db1 uid cookie now)
       \<and> fst (update_user_password bcrypt db2 uid new_password cookie now salt)
           = fst (update_user_password bcrypt db1 uid new_password cookie now salt)
       \<and> fst (logout db2 cookie) = fst (logout db1 cookie)
       \<and> fst (get_posts sort_desc db2 cookie now) = fst (get_posts sort_desc db1 cookie now)
       \<and> fst (create_post db2 text cookie now now2 uuid)
           = fst (create_post db1 text cookie now now2 uuid)
       \<and> fst (delete_post db2 pid cookie now) = fst (delete_post db1 pid cookie now)
       \<and> fst (search_posts sort_desc regex db2 q cookie now)
           = fst (search_posts sort_desc regex db1 q cookie now)
       \<and> fst (get_user_posts sort_desc db2 uid cookie now)
           = fst (get_user_posts sort_desc db1 uid cookie now)
       \<and> (\<forall>r1 r2 d1 d2. login bcrypt db1 uname pw1 now now2 uuid = (Inr r1, d1)
              \<and> login bcrypt db2 uname pw2 now now2 uuid = (Inr r2, d2) \<longrightarrow> r1 = r2)
       \<and> (\<forall>body ck d. login bcrypt db1 uname pw1 now now2 uuid = (Inr (body, ck), d) \<longrightarrow>
             (\<exists>u\<in>set (users db1). body = \<lparr>login_id = id_user u, login_username = username u,
                                           login_is_admin = is_admin u\<rparr>)
             \<and> ck = \<lparr>cookie_key = ''session_id'', cookie_val = uuid, httponly = True,
                     max_age = 86400, samesite = ''lax''\<rparr>)"
proof (intro conjI allI impI)
  note pub = assms(1,2)
  show "fst (get_user_from_session db2 cookie now) = fst (get_user_from_session db1 cookie now)"
    by (rule resolve_same_public(1) [OF pub])
  show "fst (get_current_user db2 cookie now) = fst (get_current_user db1 cookie now)"
    by (rule admin_responses_same_public(1) [OF pub])
  show "fst (get_users db2 cookie now) = fst (get_users db1 cookie now)"
    by (rule admin_responses_same_public(2) [OF pub])
  show "fst (create_user bcrypt db2 uname pw cookie now now2 uuid salt)
           = fst (create_user bcrypt db1 uname pw cookie now now2 uuid salt)"
    by (rule admin_responses_same_public(3) [OF pub])
  show "fst (delete_user db2 uid cookie now) = fst (delete_user db1 uid cookie now)"
    by (rule other_responses_same_public(1) [OF assms])
  show "fst (update_user_password bcrypt db2 uid new_password cookie now salt)
           = fst (update_user_password bcrypt db1 uid new_password cookie now salt)"
    by (rule other_responses_same_public(2) [OF assms])
  show "fst (logout db2 cookie) = fst (logout db1 cookie)"
    by (rule other_responses_same_public(3) [OF assms])
  show "fst (get_posts sort_desc db2 cookie now) = fst (get_posts sort_desc db1 cookie now)"
    by (rule other_responses_same_public(4) [OF assms])
  show "fst (create_post db2 text cookie now now2 uuid)
           = fst (create_post db1 text cookie now now2 uuid)"
    by (rule other_responses_same_public(5) [OF assms])
  show "fst (delete_post db2 pid cookie now) = fst (delete_post db1 pid cookie now)"
    by (rule other_responses_same_public(6) [OF assms])
  show "fst (search_posts sort_desc regex db2 q cookie now)
           = fst (search_posts sort_desc regex db1 q cookie now)"
    by (rule other_responses_same_public(7) [OF assms])
  show "fst (get_user_posts sort_desc db2 uid cookie now)
           = fst (get_user_posts sort_desc db1 uid cookie now)"
    by (rule other_responses_same_public(8) [OF assms])
next
  fix r1 r2 d1 d2
  assume both: "login bcrypt db1 uname pw1 now now2 uuid = (Inr r1, d1)
              \<and> login bcrypt db2 uname pw2 now now2 uuid = (Inr r2, d2)"
  from both login_success obtain u1 where u1: "find_one (by_username uname) (users db1) = Some u1"
    and r1: "r1 = (\<lparr>login_id = pub_id (project_user u1),
                     login_username = pub_username (project_user u1),
                     login_is_admin = pub_is_admin (project_user u1)\<rparr>,
                    \<lparr>cookie_key = ''session_id'', cookie_val = uuid, httponly = True,
                     max_age = 86400, samesite = ''lax''\<rparr>)"
    by blast
  from both login_success obtain u2 where u2: "find_one (by_username uname) (users db2) = Some u2"
    and r2: "r2 = (\<lparr>login_id = pub_id (project_user u2),
                     login_username = pub_username (project_user u2),
                     login_is_admin = pub_is_admin (project_user u2)\<rparr>,
                    \<lparr>cookie_key = ''session_id'', cookie_val = uuid, httponly = True,
                     max_age = 86400, samesite = ''lax''\<rparr>)"
    by blast
  from find_one_same_public [of "by_username uname" "users db2" "users db1",
         OF by_username_public assms(1)] u1 u2
  have "project_user u2 = project_user u1" by simp
  with r1 r2 show "r1 = r2" by simp
next
  fix body ck d
  assume run: "login bcrypt db1 uname pw1 now now2 uuid = (Inr (body, ck), d)"
  from login_success [OF run] obtain u where u: "find_one (by_username uname) (users db1) = Some u"
    and r: "(body, ck) = (\<lparr>login_id = pub_id (project_user u),
                     login_username = pub_username (project_user u),
                     login_is_admin = pub_is_admin (project_user u)\<rparr>,
                    \<lparr>cookie_key = ''session_id'', cookie_val = uuid, httponly = True,
                     max_age = 86400, samesite = ''lax''\<rparr>)"
    by blast
  from find_one_SomeD [OF u] have "u \<in> set (users db1)" by simp
  with r show "\<exists>u\<in>set (users db1). body = \<lparr>login_id = id_user u, login_username = username u,
                                           login_is_admin = is_admin u\<rparr>"
    by (auto simp: project_user_def)
  from r show "ck = \<lparr>cookie_key = ''session_id'', cookie_val = uuid, httponly = True,
                     max_age = 86400, samesite = ''lax''\<rparr>"
    by simp
qed

theorem password_never_in_result_witness:
  "map project_user (users (example_db\<lparr>users := [admin_doc,
       alice_doc\<lparr>password := (''zz'', ''other'')\<rparr>]\<rparr>)) = map project_user (users example_db)
   \<and> users (example_db\<lparr>users := [admin_doc, alice_doc\<lparr>password := (''zz'', ''other'')\<rparr>]\<rparr>)
        \<noteq> users example_db
   \<and> fst (get_users example_db (Some ''t0'') 50)
        = Inr [project_user admin_doc, project_user alice_doc]
   \<and> fst (get_users
        (example_db\<lparr>users := [admin_doc, alice_doc\<lparr>password := (''zz'', ''other'')\<rparr>]\<rparr>)
        (Some ''t0'') 50)
        = Inr [project_user admin_doc, project_user alice_doc]
   \<and> fst (get_user_from_session
        (example_db\<lparr>users := [admin_doc, alice_doc\<lparr>password := (''zz'', ''other'')\<rparr>]\<rparr>)
        (Some ''t1'') 50)
        = Some (project_user alice_doc)"
proof -
  let ?db2 = "example_db\<lparr>users := [admin_doc, alice_doc\<lparr>password := (''zz'', ''other'')\<rparr>]\<rparr>"
  have pub: "map project_user (users ?db2) = map project_user (users example_db)"
    by (simp add: example_defs project_user_def)
  have differ: "users ?db2 \<noteq> users example_db"
    by (simp add: example_defs hashpw_def)
  have ses: "sessions ?db2 = sessions example_db" by simp
  have pos: "posts ?db2 = posts example_db" by simp
  have listing: "fst (get_users example_db (Some ''t0'') 50)
        = Inr [project_user admin_doc, project_user alice_doc]"
    by (simp add: get_users_def get_user_from_session_def example_defs query_defs)
  have identity: "fst (get_user_from_session example_db (Some ''t1'') 50)
        = Some (project_user alice_doc)"
    by (simp add: get_user_from_session_def example_defs query_defs)
  have "fst (get_users ?db2 (Some ''t0'') 50) = fst (get_users example_db (Some ''t0'') 50)"
    by (rule password_never_in_result [OF pub ses pos, of "Some ''t0''" 50,
               THEN conjunct2, THEN conjunct2, THEN conjunct1])
  with listing have a: "fst (get_users ?db2 (Some ''t0'') 50)
        = Inr [project_user admin_doc, project_user alice_doc]"
    by (simp only:)
  have "fst (get_user_from_session ?db2 (Some ''t1'') 50)
          = fst (get_user_from_session example_db (Some ''t1'') 50)"
    by (rule password_never_in_result [OF pub ses pos, of "Some ''t1''" 50, THEN conjunct1])
  with identity have b: "fst (get_user_from_session ?db2 (Some ''t1'') 50)
        = Some (project_user alice_doc)"
    by (simp only:)
  from pub differ listing a b show ?thesis by (intro conjI)
qed

end
